theory Spec2Isabelle
  imports Main
begin

section \<open>Data model\<close>

text \<open>
  The model classes of \<^verbatim>\<open>ethtx.models.semantics_model\<close>, with the fields that
  \<^verbatim>\<open>repository.py\<close> reads and writes. Field names carry a prefix, since all record
  fields share one name space. A Python \<^verbatim>\<open>dict\<close> is an association list (iteration
  follows insertion order), read with \<open>map_of\<close>.
\<close>

datatype parameter_semantics = ParameterSemantics
  (parameter_name: string) (parameter_type: string)
  (components: "parameter_semantics list") (indexed: bool) (dynamic: bool)

record event_semantics =
  ev_signature :: string
  ev_anonymous :: bool
  ev_name :: string
  ev_parameters :: "parameter_semantics list"

record function_semantics =
  fn_signature :: string
  fn_name :: string
  fn_inputs :: "parameter_semantics list"
  fn_outputs :: "parameter_semantics list"

record transformation_semantics =
  transformed_name :: string
  transformed_type :: string
  transformation :: string

record erc20_semantics =
  erc20_name :: string
  erc20_symbol :: string
  erc20_decimals :: int

type_synonym events_dict = "(string \<times> event_semantics) list"
type_synonym functions_dict = "(string \<times> function_semantics) list"
type_synonym transformations_dict = "(string \<times> (string \<times> transformation_semantics) list) list"

record contract_semantics =
  cs_code_hash :: string
  cs_name :: string
  cs_events :: events_dict
  cs_functions :: functions_dict
  cs_transformations :: transformations_dict

record address_semantics =
  as_chain_id :: string
  as_address :: string
  as_name :: string
  as_is_contract :: bool
  as_contract :: contract_semantics
  as_standard :: "string option"
  as_erc20 :: "erc20_semantics option"

record signature_arg =
  arg_name :: string
  arg_type :: string

text \<open>
  \<^verbatim>\<open>Signature\<close> and the dictionaries that the store keeps for signatures have the same
  keys; \<^verbatim>\<open>signature.dict()\<close> is the identity on this record.
\<close>

record signature =
  signature_hash :: string
  sig_name :: string
  sig_args :: "signature_arg list"
  sig_count :: int
  sig_tuple :: bool
  sig_guessed :: bool

text \<open>
  Modelled from the spec: the default field values of the model classes, whose
  declarations are not part of \<^verbatim>\<open>repository.py\<close>. A \<^verbatim>\<open>ContractSemantics\<close> built
  from a code hash and a name only has empty event, function and transformation maps
  (the invariant on the zero-hash sentinel); an \<^verbatim>\<open>AddressSemantics\<close> built without
  \<^verbatim>\<open>standard\<close> and \<^verbatim>\<open>erc20\<close> has neither; a \<^verbatim>\<open>ParameterSemantics\<close> built without
  \<^verbatim>\<open>components\<close> has none.
\<close>

definition ContractSemantics_default :: "string \<Rightarrow> string \<Rightarrow> contract_semantics" where
  "ContractSemantics_default h n =
     \<lparr>cs_code_hash = h, cs_name = n, cs_events = [], cs_functions = [], cs_transformations = []\<rparr>"

text \<open>
  The defaults of \<^verbatim>\<open>Signature(signature_hash=, name=, args=)\<close> for \<^verbatim>\<open>count\<close>,
  \<^verbatim>\<open>tuple\<close> and \<^verbatim>\<open>guessed\<close> are a parameter of the model.
\<close>

record signature_defaults =
  default_count :: int
  default_tuple :: bool
  default_guessed :: bool

subsection \<open>Records of the store\<close>

datatype raw_parameter = RawParameter
  (rp_parameter_name: string) (rp_parameter_type: string)
  (rp_components: "raw_parameter list option") (rp_indexed: bool) (rp_dynamic: bool)

record raw_event =
  re_anonymous :: bool
  re_name :: string
  re_parameters :: "raw_parameter list"

record raw_function =
  rf_name :: string
  rf_inputs :: "raw_parameter list"
  rf_outputs :: "raw_parameter list"

record raw_contract_semantics =
  rc_code_hash :: string
  rc_name :: string
  rc_events :: "(string \<times> raw_event) list"
  rc_functions :: "(string \<times> raw_function) list"
  rc_transformations :: transformations_dict

text \<open>
  The address record of the store; \<^verbatim>\<open>name\<close> and \<^verbatim>\<open>erc20\<close> are read with
  \<^verbatim>\<open>.get\<close>, so they may be missing (\<open>None\<close> also stands for a falsy \<^verbatim>\<open>erc20\<close>).
\<close>

record raw_address_semantics =
  ra_chain_id :: string
  ra_address :: string
  ra_name :: "string option"
  ra_is_contract :: bool
  ra_contract :: string
  ra_standard :: "string option"
  ra_erc20 :: "erc20_semantics option"

type_synonym raw_abi = string

record raw_semantics =
  rs_name :: string
  rs_abi :: raw_abi

record proxy =
  px_name :: string
  px_token :: "erc20_semantics option"

section \<open>Collaborators\<close>

datatype error = TypeError | ValueError | AttributeError

text \<open>
  One constructor for each call that \<^verbatim>\<open>repository.py\<close> makes to a collaborator: the
  store, the chain provider, the ABI registry (Etherscan), the ABI decoder, name
  resolution and the Amendment Layer.
\<close>

datatype call =
    DbGetAddressSemantics string string
  | DbGetContractSemantics string
  | DbInsertContract contract_semantics bool
  | DbInsertAddress raw_address_semantics bool
  | DbGetSignatureSemantics string
  | DbInsertSignature signature bool
  | EnsName string string
  | GetCodeHash string string
  | GetContractAbi string string
  | DecodeEventsAndFunctions raw_abi
  | GetErc20Token string string
  | GuessErc20Proxy string string
  | GuessErc20Token string string
  | AmendContractSemantics contract_semantics

text \<open>
  What is outside the repository object: the state of the store, and the calls made to
  the collaborators so far.
\<close>

record 'db world =
  db :: 'db
  trace :: "call list"

definition log :: "call \<Rightarrow> 'db world \<Rightarrow> 'db world" where
  "log c w = w\<lparr>trace := trace w @ [c]\<rparr>"

text \<open>
  The collaborators are parameters. The store is any implementation of
  \<^verbatim>\<open>ISemanticsDatabase\<close> over a state \<open>'db\<close>; \<open>get_erc20_token\<close> is \<open>None\<close> when the
  \<^verbatim>\<open>try\<close> block around it raises; \<open>int16\<close> is Python's \<^verbatim>\<open>int(s, 16)\<close>, \<open>None\<close> for
  \<^verbatim>\<open>ValueError\<close>.
\<close>

record 'db env =
  db_get_address_semantics :: "'db \<Rightarrow> string \<Rightarrow> string \<Rightarrow> raw_address_semantics option"
  db_get_contract_semantics :: "'db \<Rightarrow> string \<Rightarrow> raw_contract_semantics option"
  db_get_signature_semantics :: "'db \<Rightarrow> string \<Rightarrow> signature list"
  db_insert_contract :: "'db \<Rightarrow> contract_semantics \<Rightarrow> bool \<Rightarrow> 'db \<times> bool"
  db_insert_address :: "'db \<Rightarrow> raw_address_semantics \<Rightarrow> bool \<Rightarrow> 'db"
  db_insert_signature :: "'db \<Rightarrow> signature \<Rightarrow> bool \<Rightarrow> 'db"
  ens_name :: "string \<Rightarrow> string \<Rightarrow> string"
  get_code_hash :: "string \<Rightarrow> string \<Rightarrow> string"
  get_contract_abi :: "string \<Rightarrow> string \<Rightarrow> raw_semantics option \<times> bool"
  decode_events_and_functions :: "raw_abi \<Rightarrow> events_dict \<times> functions_dict"
  get_erc20_token :: "string \<Rightarrow> string \<Rightarrow> functions_dict \<Rightarrow> erc20_semantics option"
  guess_erc20_proxy :: "string \<Rightarrow> string \<Rightarrow> erc20_semantics option"
  guess_erc20_token :: "string \<Rightarrow> string \<Rightarrow> erc20_semantics option"
  amend_contract_semantics :: "contract_semantics \<Rightarrow> contract_semantics"
  ERC20_EVENTS :: "string list"
  ERC20_FUNCTIONS :: "string list"
  ERC721_EVENTS :: "string list"
  ERC721_FUNCTIONS :: "string list"
  precompiles :: "int list"
  int16 :: "string \<Rightarrow> int option"
  signature_defaults :: signature_defaults

section \<open>Python helpers\<close>

text \<open>\<^verbatim>\<open>not address\<close>: true for \<^verbatim>\<open>None\<close> and for the empty string.\<close>

definition py_not :: "string option \<Rightarrow> bool" where
  "py_not address = (case address of None \<Rightarrow> True | Some a \<Rightarrow> a = [])"

text \<open>\<^verbatim>\<open>key in d\<close> for a dictionary.\<close>

definition has_key :: "('k \<times> 'v) list \<Rightarrow> 'k \<Rightarrow> bool" where
  "has_key d k = (k \<in> set (map fst d))"

text \<open>\<^verbatim>\<open>del d[key]\<close>.\<close>

definition del_key :: "'k \<Rightarrow> ('k \<times> 'v) list \<Rightarrow> ('k \<times> 'v) list" where
  "del_key k d = filter (\<lambda>e. fst e \<noteq> k) d"

text \<open>\<^verbatim>\<open>s.startswith(p)\<close> and \<^verbatim>\<open>p in s\<close> for strings.\<close>

definition startswith :: "string \<Rightarrow> string \<Rightarrow> bool" where
  "startswith s p = (take (length p) s = p)"

fun str_contains :: "string \<Rightarrow> string \<Rightarrow> bool" where
  "str_contains p [] = (p = [])"
| "str_contains p (c # s) = (startswith (c # s) p \<or> str_contains p s)"

definition ZERO_HASH :: string where
  "ZERO_HASH = ''0xc5d2460186f7233c927e7db2dcc703c0e500b653ca82273b7bfad8045d85a470''"

section \<open>Standard classifier\<close>

text \<open>
  \<^verbatim>\<open>all(k in d for k in required)\<close>.
\<close>

definition all_in :: "string list \<Rightarrow> (string \<times> 'v) list \<Rightarrow> bool" where
  "all_in required d = list_all (has_key d) required"

definition decode_standard_semantics ::
  "'db env \<Rightarrow> string option \<Rightarrow> string \<Rightarrow> events_dict \<Rightarrow> functions_dict \<Rightarrow> 'db world
     \<Rightarrow> 'db world \<times> (string option \<times> erc20_semantics option)" where
  "decode_standard_semantics env address name events functions w =
     (if py_not address then (w, (None, None))
      else if all_in (ERC20_EVENTS env) events \<and> all_in (ERC20_FUNCTIONS env) functions then
        (log (GetErc20Token (the address) name) w,
         (Some ''ERC20'',
          (case get_erc20_token env (the address) name functions of
             Some token_data \<Rightarrow> Some token_data
           | None \<Rightarrow> Some \<lparr>erc20_name = name, erc20_symbol = name, erc20_decimals = 18\<rparr>)))
      else if all_in (ERC721_EVENTS env) events \<and> all_in (ERC721_FUNCTIONS env) functions then
        (w, (Some ''ERC721'', None))
      else (w, (None, None)))"


section \<open>Signature registry\<close>

definition do_insert_signature :: "'db env \<Rightarrow> signature \<Rightarrow> bool \<Rightarrow> 'db world \<Rightarrow> 'db world" where
  "do_insert_signature env sig update_if_exist w =
     \<lparr>db = db_insert_signature env (db w) sig update_if_exist,
      trace = trace w @ [DbInsertSignature sig update_if_exist]\<rparr>"

text \<open>The condition of the \<^verbatim>\<open>if\<close> in the loop of \<^verbatim>\<open>update_or_insert_signature\<close>.\<close>

definition sig_matches :: "signature \<Rightarrow> signature \<Rightarrow> bool" where
  "sig_matches signature sig =
     (sig_name signature = sig_name sig
      \<and> signature_hash signature = signature_hash sig
      \<and> length (sig_args signature) = length (sig_args sig))"

text \<open>
  \<^verbatim>\<open>signature.args and any(arg for arg in list(sig["args"][0].values()) if "arg" in arg)\<close>:
  the values of the first stored argument are its name and its type.
\<close>

definition args_look_generic :: "signature \<Rightarrow> signature \<Rightarrow> bool" where
  "args_look_generic signature sig =
     (sig_args signature \<noteq> []
      \<and> (case sig_args sig of
            [] \<Rightarrow> False
          | a # _ \<Rightarrow> str_contains ''arg'' (arg_name a) \<or> str_contains ''arg'' (arg_type a)))"

text \<open>
  The body of the \<^verbatim>\<open>if\<close>: the stored arguments take the new names and types by index,
  the count goes up by one, the entry is no longer guessed.
\<close>

definition overwrite_args :: "signature \<Rightarrow> signature \<Rightarrow> signature" where
  "overwrite_args signature sig =
     sig\<lparr>sig_args :=
       map (\<lambda>(argument, new). argument\<lparr>arg_name := arg_name new, arg_type := arg_type new\<rparr>)
         (zip (sig_args sig) (sig_args signature))\<rparr>"

definition updated_entry :: "signature \<Rightarrow> signature \<Rightarrow> signature" where
  "updated_entry signature sig =
     (let sig1 = (if args_look_generic signature sig then overwrite_args signature sig else sig)
      in sig1\<lparr>sig_count := sig_count sig1 + 1, sig_guessed := False\<rparr>)"

text \<open>
  The \<^verbatim>\<open>for ... else\<close> loop: the first matching entry is updated and stored with
  \<^verbatim>\<open>update_if_exist=True\<close>, and the loop ends; when the loop runs out, the new
  signature is stored (\<^verbatim>\<open>update_if_exist\<close> is not given there: \<open>False\<close>).
\<close>

fun update_or_insert_loop :: "'db env \<Rightarrow> signature \<Rightarrow> signature list \<Rightarrow> 'db world \<Rightarrow> 'db world" where
  "update_or_insert_loop env signature [] w = do_insert_signature env signature False w"
| "update_or_insert_loop env signature (sig # signatures) w =
     (if sig_matches signature sig
      then do_insert_signature env (updated_entry signature sig) True w
      else update_or_insert_loop env signature signatures w)"

definition update_or_insert_signature :: "'db env \<Rightarrow> signature \<Rightarrow> 'db world \<Rightarrow> 'db world" where
  "update_or_insert_signature env signature w =
     update_or_insert_loop env signature
       (db_get_signature_semantics env (db w) (signature_hash signature))
       (log (DbGetSignatureSemantics (signature_hash signature)) w)"

definition SignatureArg :: "parameter_semantics \<Rightarrow> signature_arg" where
  "SignatureArg param = \<lparr>arg_name = parameter_name param, arg_type = parameter_type param\<rparr>"

definition signature_args :: "function_semantics \<Rightarrow> signature_arg list" where
  "signature_args v =
     (if fn_inputs v \<noteq> [] \<and> parameter_type (hd (fn_inputs v)) = ''tuple''
      then map SignatureArg (components (hd (fn_inputs v)))
      else if fn_inputs v \<noteq> [] then map SignatureArg (fn_inputs v) else [])"

definition new_signature :: "'db env \<Rightarrow> function_semantics \<Rightarrow> signature" where
  "new_signature env v =
     \<lparr>signature_hash = fn_signature v, sig_name = fn_name v, sig_args = signature_args v,
      sig_count = default_count (signature_defaults env),
      sig_tuple = default_tuple (signature_defaults env),
      sig_guessed = default_guessed (signature_defaults env)\<rparr>"

fun insert_signatures_loop :: "'db env \<Rightarrow> functions_dict \<Rightarrow> 'db world \<Rightarrow> 'db world" where
  "insert_signatures_loop env [] w = w"
| "insert_signatures_loop env ((k, v) # items) w =
     (if \<not> startswith (fn_signature v) ''0x'' then insert_signatures_loop env items w
      else insert_signatures_loop env items (update_or_insert_signature env (new_signature env v) w))"

definition insert_contract_signatures :: "'db env \<Rightarrow> contract_semantics \<Rightarrow> 'db world \<Rightarrow> 'db world" where
  "insert_contract_signatures env contract_semantics w =
     insert_signatures_loop env (cs_functions contract_semantics) w"

section \<open>The store: writing and reading semantics\<close>

text \<open>
  \<^verbatim>\<open>model.dict()\<close> is the value of the model as nested dictionaries: the store
  receives the contract semantics as it is, and the address semantics as the dictionary
  of \<^verbatim>\<open>semantics.copy()\<close> with \<^verbatim>\<open>contract\<close> replaced by its code hash.
\<close>

definition address_dict :: "address_semantics \<Rightarrow> raw_address_semantics" where
  "address_dict s =
     \<lparr>ra_chain_id = as_chain_id s, ra_address = as_address s, ra_name = Some (as_name s),
      ra_is_contract = as_is_contract s, ra_contract = cs_code_hash (as_contract s),
      ra_standard = as_standard s, ra_erc20 = as_erc20 s\<rparr>"

definition update_semantics :: "'db env \<Rightarrow> address_semantics option \<Rightarrow> 'db world \<Rightarrow> 'db world" where
  "update_semantics env semantics w =
     (case semantics of
        None \<Rightarrow> w
      | Some s \<Rightarrow>
          let (d1, contract_id) = db_insert_contract env (db w) (as_contract s) True;
              w1 = \<lparr>db = d1, trace = trace w @ [DbInsertContract (as_contract s) True]\<rparr>;
              w2 = \<lparr>db = db_insert_address env (db w1) (address_dict s) True,
                    trace = trace w1 @ [DbInsertAddress (address_dict s) True]\<rparr>
          in if contract_id then insert_contract_signatures env (as_contract s) w2 else w2)"

fun decode_parameter :: "raw_parameter \<Rightarrow> parameter_semantics" where
  "decode_parameter (RawParameter n t cs i d) =
     ParameterSemantics n t
       (case cs of None \<Rightarrow> [] | Some ps \<Rightarrow> map decode_parameter ps) i d"

definition decode_contract :: "raw_contract_semantics \<Rightarrow> contract_semantics" where
  "decode_contract raw =
     \<lparr>cs_code_hash = rc_code_hash raw, cs_name = rc_name raw,
      cs_events = map (\<lambda>(signature, event).
          (signature, \<lparr>ev_signature = signature, ev_anonymous = re_anonymous event,
                       ev_name = re_name event,
                       ev_parameters = map decode_parameter (re_parameters event)\<rparr>))
        (rc_events raw),
      cs_functions = map (\<lambda>(signature, function).
          (signature, \<lparr>fn_signature = signature, fn_name = rf_name function,
                       fn_inputs = map decode_parameter (rf_inputs function),
                       fn_outputs = map decode_parameter (rf_outputs function)\<rparr>))
        (rc_functions raw),
      cs_transformations = rc_transformations raw\<rparr>"

text \<open>
  \<^verbatim>\<open>_read_stored_semantics\<close>. A contract record that the store does not have is
  \<^verbatim>\<open>None\<close>, and subscripting it raises \<^verbatim>\<open>TypeError\<close>.
\<close>

definition read_stored_semantics ::
  "'db env \<Rightarrow> string option \<Rightarrow> string \<Rightarrow> 'db world \<Rightarrow> 'db world \<times> (error + address_semantics option)" where
  "read_stored_semantics env address chain_id w =
     (if py_not address then (w, Inr None)
      else
        let a = the address;
            w1 = log (DbGetAddressSemantics chain_id a) w
        in case db_get_address_semantics env (db w) chain_id a of
             None \<Rightarrow> (w1, Inr None)
           | Some raw \<Rightarrow>
               let erc20_semantics = ra_erc20 raw;
                   (w2, contract) =
                     (if ra_contract raw = ZERO_HASH
                      then (w1, Inr (ContractSemantics_default (ra_contract raw) ''EOA''))
                      else (log (DbGetContractSemantics (ra_contract raw)) w1,
                            (case db_get_contract_semantics env (db w) (ra_contract raw) of
                               None \<Rightarrow> Inl TypeError
                             | Some raw_contract \<Rightarrow> Inr (decode_contract raw_contract))))
               in (case contract of
                    Inl e \<Rightarrow> (w2, Inl e)
                  | Inr contract_semantics \<Rightarrow>
                      let name0 = (case ra_name raw of None \<Rightarrow> a | Some n \<Rightarrow> n);
                          (w3, name) =
                            (if name0 = a \<and> \<not> ra_is_contract raw
                             then (log (EnsName chain_id a) w2, ens_name env chain_id a)
                             else (w2, name0))
                      in (w3, Inr (Some
                            \<lparr>as_chain_id = chain_id, as_address = a, as_name = name,
                             as_is_contract = ra_is_contract raw,
                             as_contract = contract_semantics,
                             as_standard = ra_standard raw,
                             as_erc20 = erc20_semantics\<rparr>))))"


section \<open>The repository object and its memoization caches\<close>

text \<open>
  \<^verbatim>\<open>functools.lru_cache(maxsize=128)\<close>: a cache is the list of its entries, the most
  recently used first. A hit moves the entry to the front and returns its result without
  running the function. A miss runs the function; when it returns (an exception stores
  nothing), the result is stored, in place of the least recently used entry when the
  cache is full.
\<close>

type_synonym ('k, 'v) lru_cache = "('k \<times> 'v) list"

definition maxsize :: nat where
  "maxsize = 128"

definition lru_hit :: "'k \<Rightarrow> 'v \<Rightarrow> ('k, 'v) lru_cache \<Rightarrow> ('k, 'v) lru_cache" where
  "lru_hit key result cache = (key, result) # del_key key cache"

definition lru_store :: "'k \<Rightarrow> 'v \<Rightarrow> ('k, 'v) lru_cache \<Rightarrow> ('k, 'v) lru_cache" where
  "lru_store key result cache =
     (if has_key cache key then cache
      else if length cache \<ge> maxsize then (key, result) # butlast cache
      else (key, result) # cache)"

definition lru_cached ::
  "('s \<Rightarrow> ('k, 'v) lru_cache) \<Rightarrow> (('k, 'v) lru_cache \<Rightarrow> 's \<Rightarrow> 's) \<Rightarrow> 'k
     \<Rightarrow> ('s \<Rightarrow> 's \<times> (error + 'v)) \<Rightarrow> 's \<Rightarrow> 's \<times> (error + 'v)" where
  "lru_cached get_cache set_cache key user_function st =
     (case map_of (get_cache st) key of
        Some result \<Rightarrow> (set_cache (lru_hit key result (get_cache st)) st, Inr result)
      | None \<Rightarrow>
          (case user_function st of
             (st', Inl e) \<Rightarrow> (st', Inl e)
           | (st', Inr result) \<Rightarrow> (set_cache (lru_store key result (get_cache st')) st', Inr result)))"

text \<open>
  The objects that \<^verbatim>\<open>get_semantics\<close> returns are shared: its cache, the caches of the
  accessors and the callers hold references to the same \<^verbatim>\<open>AddressSemantics\<close>, and
  \<^verbatim>\<open>get_constructor_abi\<close> appends to a list inside it. So the objects live in a heap,
  a reference is an index into it, and a reference to a \<^verbatim>\<open>FunctionSemantics\<close> is the
  reference to its owner with the key of the function.
\<close>

type_synonym ref = nat
type_synonym function_ref = "ref \<times> string"

record 'db repository =
  world :: "'db world"
  records :: "string list option"
  heap :: "address_semantics list"
  get_semantics_cache :: "(string \<times> string option, ref option) lru_cache"
  get_event_abi_cache :: "(string \<times> string option \<times> string, event_semantics option) lru_cache"
  get_transformations_cache ::
    "(string \<times> string option \<times> string, (string \<times> transformation_semantics) list option) lru_cache"
  get_anonymous_event_abi_cache :: "(string \<times> string option, event_semantics option) lru_cache"
  get_function_abi_cache :: "(string \<times> string option \<times> string, function_ref option) lru_cache"
  get_constructor_abi_cache :: "(string \<times> string option, function_ref option) lru_cache"
  check_is_contract_cache :: "(string \<times> string option, bool) lru_cache"
  get_standard_cache :: "(string \<times> string option, string option) lru_cache"

text \<open>\<^verbatim>\<open>__init__\<close>: no recording, and nothing cached yet.\<close>

definition init :: "'db \<Rightarrow> 'db repository" where
  "init database_connection =
     \<lparr>world = \<lparr>db = database_connection, trace = []\<rparr>, records = None, heap = [],
      get_semantics_cache = [], get_event_abi_cache = [], get_transformations_cache = [],
      get_anonymous_event_abi_cache = [], get_function_abi_cache = [],
      get_constructor_abi_cache = [], check_is_contract_cache = [], get_standard_cache = []\<rparr>"

definition deref :: "address_semantics list \<Rightarrow> ref \<Rightarrow> address_semantics option" where
  "deref h r = (if r < length h then Some (h ! r) else None)"

definition deref_function :: "address_semantics list \<Rightarrow> function_ref \<Rightarrow> function_semantics option" where
  "deref_function h fr =
     (case deref h (fst fr) of
        None \<Rightarrow> None
      | Some s \<Rightarrow> map_of (cs_functions (as_contract s)) (snd fr))"

definition record_start :: "'db repository \<Rightarrow> 'db repository" where
  "record_start st = st\<lparr>records := Some []\<rparr>"

definition end_record :: "'db repository \<Rightarrow> 'db repository \<times> string list option" where
  "end_record st = (st\<lparr>records := None\<rparr>, records st)"

section \<open>Tiered resolver\<close>

text \<open>
  The branch of \<^verbatim>\<open>get_semantics\<close> taken when the store has no record, up to the call
  of \<^verbatim>\<open>update_semantics\<close>: the chain tier, then the registry tier or the heuristic
  tier for a contract.
\<close>

definition resolve_remote :: "'db env \<Rightarrow> string \<Rightarrow> string \<Rightarrow> 'db world \<Rightarrow> 'db world \<times> address_semantics" where
  "resolve_remote env chain_id address w =
     (let w1 = log (GetCodeHash address chain_id) w;
          code_hash = get_code_hash env address chain_id
      in if code_hash \<noteq> ZERO_HASH then
           let w2 = log (GetContractAbi chain_id address) w1;
               (raw_semantics, decoded) = get_contract_abi env chain_id address
           in if decoded \<and> raw_semantics \<noteq> None then
                let rs = the raw_semantics;
                    w3 = log (DecodeEventsAndFunctions (rs_abi rs)) w2;
                    (events, functions) = decode_events_and_functions env (rs_abi rs);
                    (w4, standard, standard_semantics) =
                      decode_standard_semantics env (Some address) (rs_name rs) events functions w3;
                    (w5, erc20_semantics) =
                      (if standard = Some ''ERC20'' then (w4, standard_semantics)
                       else (log (GuessErc20Proxy address chain_id) w4,
                             guess_erc20_proxy env address chain_id))
                in (w5,
                    \<lparr>as_chain_id = chain_id, as_address = address, as_name = rs_name rs,
                     as_is_contract = True,
                     as_contract =
                       \<lparr>cs_code_hash = code_hash, cs_name = rs_name rs, cs_events = events,
                        cs_functions = functions, cs_transformations = []\<rparr>,
                     as_standard = standard, as_erc20 = erc20_semantics\<rparr>)
              else
                let w3 = log (GuessErc20Token address chain_id) w2;
                    potential_erc20_semantics = guess_erc20_token env address chain_id;
                    standard = (if potential_erc20_semantics \<noteq> None then Some ''ERC20'' else None)
                in (w3,
                    \<lparr>as_chain_id = chain_id, as_address = address, as_name = address,
                     as_is_contract = True,
                     as_contract = ContractSemantics_default code_hash address,
                     as_standard = standard, as_erc20 = potential_erc20_semantics\<rparr>)
         else
           (log (EnsName chain_id address) w1,
            \<lparr>as_chain_id = chain_id, as_address = address,
             as_name = ens_name env chain_id address, as_is_contract = False,
             as_contract = ContractSemantics_default ZERO_HASH ''EOA'',
             as_standard = None, as_erc20 = None\<rparr>))"

text \<open>
  The tiers of \<^verbatim>\<open>get_semantics\<close>: the record of the store when there is one,
  otherwise the record resolved from the chain, the registry or the heuristics, which is
  then written to the store with \<^verbatim>\<open>update_semantics\<close>.
\<close>

definition resolve_tiers ::
  "'db env \<Rightarrow> string \<Rightarrow> string option \<Rightarrow> 'db world \<Rightarrow> 'db world \<times> (error + address_semantics)" where
  "resolve_tiers env chain_id address w =
     (case read_stored_semantics env address chain_id w of
        (w1, Inl e) \<Rightarrow> (w1, Inl e)
      | (w1, Inr (Some s)) \<Rightarrow> (w1, Inr s)
      | (w1, Inr None) \<Rightarrow>
          let (w2, s) = resolve_remote env chain_id (the address) w1
          in (update_semantics env (Some s) w2, Inr s))"

text \<open>
  The body of \<^verbatim>\<open>get_semantics\<close>. The transform of the Amendment Layer works in place
  on the contract of the record; the record is then a new object of the heap.
\<close>

definition get_semantics_body ::
  "'db env \<Rightarrow> string \<Rightarrow> string option \<Rightarrow> 'db repository \<Rightarrow> 'db repository \<times> (error + ref option)" where
  "get_semantics_body env chain_id address st =
     (if py_not address then (st, Inr None)
      else
        case resolve_tiers env chain_id address (world st) of
          (w, Inl e) \<Rightarrow> (st\<lparr>world := w\<rparr>, Inl e)
        | (w, Inr address_semantics) \<Rightarrow>
            (st\<lparr>world := log (AmendContractSemantics (as_contract address_semantics)) w,
                records := (case records st of
                              None \<Rightarrow> None
                            | Some rs \<Rightarrow> Some (rs @ [the address])),
                heap := heap st @
                  [address_semantics
                     \<lparr>as_contract := amend_contract_semantics env (as_contract address_semantics)\<rparr>]\<rparr>,
             Inr (Some (length (heap st)))))"

definition get_semantics ::
  "'db env \<Rightarrow> string \<Rightarrow> string option \<Rightarrow> 'db repository \<Rightarrow> 'db repository \<times> (error + ref option)" where
  "get_semantics env chain_id address =
     lru_cached get_semantics_cache (\<lambda>c st. st\<lparr>get_semantics_cache := c\<rparr>) (chain_id, address)
       (get_semantics_body env chain_id address)"

section \<open>Derived accessors\<close>

text \<open>
  What an accessor reads from the result of \<^verbatim>\<open>get_semantics\<close>: the object behind the
  reference, when there is one.
\<close>

definition semantics_of :: "address_semantics list \<Rightarrow> ref option \<Rightarrow> address_semantics option" where
  "semantics_of h semantics = (case semantics of None \<Rightarrow> None | Some r \<Rightarrow> deref h r)"

text \<open>
  Each memoized accessor is its body, as written in \<^verbatim>\<open>repository.py\<close>, under
  \<^verbatim>\<open>lru_cache\<close> with a cache of its own.
\<close>

definition get_event_abi_body ::
  "'db env \<Rightarrow> string \<Rightarrow> string option \<Rightarrow> string \<Rightarrow> 'db repository
     \<Rightarrow> 'db repository \<times> (error + event_semantics option)" where
  "get_event_abi_body env chain_id address signature st =
     (if py_not address then (st, Inr None)
      else case get_semantics env chain_id address st of
             (st1, Inl e) \<Rightarrow> (st1, Inl e)
           | (st1, Inr semantics) \<Rightarrow>
               (st1, Inr (case semantics_of (heap st1) semantics of
                            None \<Rightarrow> None
                          | Some s \<Rightarrow> map_of (cs_events (as_contract s)) signature)))"

definition get_event_abi ::
  "'db env \<Rightarrow> string \<Rightarrow> string option \<Rightarrow> string \<Rightarrow> 'db repository
     \<Rightarrow> 'db repository \<times> (error + event_semantics option)" where
  "get_event_abi env chain_id address signature =
     lru_cached get_event_abi_cache (\<lambda>c st. st\<lparr>get_event_abi_cache := c\<rparr>)
       (chain_id, address, signature) (get_event_abi_body env chain_id address signature)"

definition get_transformations_body ::
  "'db env \<Rightarrow> string \<Rightarrow> string option \<Rightarrow> string \<Rightarrow> 'db repository
     \<Rightarrow> 'db repository \<times> (error + (string \<times> transformation_semantics) list option)" where
  "get_transformations_body env chain_id address signature st =
     (if py_not address then (st, Inr None)
      else case get_semantics env chain_id address st of
             (st1, Inl e) \<Rightarrow> (st1, Inl e)
           | (st1, Inr semantics) \<Rightarrow>
               (st1, Inr (case semantics_of (heap st1) semantics of
                            None \<Rightarrow> None
                          | Some s \<Rightarrow> map_of (cs_transformations (as_contract s)) signature)))"

definition get_transformations ::
  "'db env \<Rightarrow> string \<Rightarrow> string option \<Rightarrow> string \<Rightarrow> 'db repository
     \<Rightarrow> 'db repository \<times> (error + (string \<times> transformation_semantics) list option)" where
  "get_transformations env chain_id address signature =
     lru_cached get_transformations_cache (\<lambda>c st. st\<lparr>get_transformations_cache := c\<rparr>)
       (chain_id, address, signature) (get_transformations_body env chain_id address signature)"

text \<open>
  The set of the signatures of the anonymous events has one element exactly when the
  list of these signatures, without repetitions, has length one.
\<close>

definition anonymous_event :: "events_dict \<Rightarrow> event_semantics option" where
  "anonymous_event events =
     (case remdups (map fst (filter (\<lambda>(signature, event). ev_anonymous event) events)) of
        [event_signature] \<Rightarrow> map_of events event_signature
      | _ \<Rightarrow> None)"

definition get_anonymous_event_abi_body ::
  "'db env \<Rightarrow> string \<Rightarrow> string option \<Rightarrow> 'db repository
     \<Rightarrow> 'db repository \<times> (error + event_semantics option)" where
  "get_anonymous_event_abi_body env chain_id address st =
     (if py_not address then (st, Inr None)
      else case get_semantics env chain_id address st of
             (st1, Inl e) \<Rightarrow> (st1, Inl e)
           | (st1, Inr semantics) \<Rightarrow>
               (st1, Inr (case semantics_of (heap st1) semantics of
                            None \<Rightarrow> None
                          | Some s \<Rightarrow> anonymous_event (cs_events (as_contract s)))))"

definition get_anonymous_event_abi ::
  "'db env \<Rightarrow> string \<Rightarrow> string option \<Rightarrow> 'db repository
     \<Rightarrow> 'db repository \<times> (error + event_semantics option)" where
  "get_anonymous_event_abi env chain_id address =
     lru_cached get_anonymous_event_abi_cache (\<lambda>c st. st\<lparr>get_anonymous_event_abi_cache := c\<rparr>)
       (chain_id, address) (get_anonymous_event_abi_body env chain_id address)"

text \<open>
  \<^verbatim>\<open>get_function_abi\<close> and \<^verbatim>\<open>get_constructor_abi\<close> return a \<^verbatim>\<open>FunctionSemantics\<close>
  that belongs to the object of \<^verbatim>\<open>get_semantics\<close>: the model returns the reference.
\<close>

definition function_ref_of :: "address_semantics list \<Rightarrow> ref option \<Rightarrow> string \<Rightarrow> function_ref option" where
  "function_ref_of h semantics signature =
     (case semantics of
        None \<Rightarrow> None
      | Some r \<Rightarrow> (case deref_function h (r, signature) of
                    None \<Rightarrow> None
                  | Some f \<Rightarrow> Some (r, signature)))"

definition get_function_abi_body ::
  "'db env \<Rightarrow> string \<Rightarrow> string option \<Rightarrow> string \<Rightarrow> 'db repository
     \<Rightarrow> 'db repository \<times> (error + function_ref option)" where
  "get_function_abi_body env chain_id address signature st =
     (if py_not address then (st, Inr None)
      else case get_semantics env chain_id address st of
             (st1, Inl e) \<Rightarrow> (st1, Inl e)
           | (st1, Inr semantics) \<Rightarrow>
               (st1, Inr (function_ref_of (heap st1) semantics signature)))"

definition get_function_abi ::
  "'db env \<Rightarrow> string \<Rightarrow> string option \<Rightarrow> string \<Rightarrow> 'db repository
     \<Rightarrow> 'db repository \<times> (error + function_ref option)" where
  "get_function_abi env chain_id address signature =
     lru_cached get_function_abi_cache (\<lambda>c st. st\<lparr>get_function_abi_cache := c\<rparr>)
       (chain_id, address, signature) (get_function_abi_body env chain_id address signature)"

definition create_output :: parameter_semantics where
  "create_output = ParameterSemantics ''__create_output__'' ''ignore'' [] False True"

text \<open>\<^verbatim>\<open>d[key]\<close> changed in place.\<close>

fun dict_modify :: "'k \<Rightarrow> ('v \<Rightarrow> 'v) \<Rightarrow> ('k \<times> 'v) list \<Rightarrow> ('k \<times> 'v) list" where
  "dict_modify k f [] = []"
| "dict_modify k f ((k', v) # d) =
     (if k' = k then (k', f v) # d else (k', v) # dict_modify k f d)"

text \<open>\<^verbatim>\<open>constructor_semantics.outputs.append(...)\<close>, on the object in the heap.\<close>

definition append_output :: "function_ref \<Rightarrow> parameter_semantics \<Rightarrow> address_semantics list \<Rightarrow> address_semantics list" where
  "append_output fr p h =
     (case deref h (fst fr) of
        None \<Rightarrow> h
      | Some s \<Rightarrow>
          h[fst fr := s\<lparr>as_contract := (as_contract s)
              \<lparr>cs_functions :=
                 dict_modify (snd fr) (\<lambda>f. f\<lparr>fn_outputs := fn_outputs f @ [p]\<rparr>)
                   (cs_functions (as_contract s))\<rparr>\<rparr>])"

definition get_constructor_abi_body ::
  "'db env \<Rightarrow> string \<Rightarrow> string option \<Rightarrow> 'db repository
     \<Rightarrow> 'db repository \<times> (error + function_ref option)" where
  "get_constructor_abi_body env chain_id address st =
     (if py_not address then (st, Inr None)
      else case get_semantics env chain_id address st of
             (st1, Inl e) \<Rightarrow> (st1, Inl e)
           | (st1, Inr semantics) \<Rightarrow>
               (case function_ref_of (heap st1) semantics ''constructor'' of
                  None \<Rightarrow> (st1, Inr None)
                | Some constructor_semantics \<Rightarrow>
                    (st1\<lparr>heap := append_output constructor_semantics create_output (heap st1)\<rparr>,
                     Inr (Some constructor_semantics))))"

definition get_constructor_abi ::
  "'db env \<Rightarrow> string \<Rightarrow> string option \<Rightarrow> 'db repository
     \<Rightarrow> 'db repository \<times> (error + function_ref option)" where
  "get_constructor_abi env chain_id address =
     lru_cached get_constructor_abi_cache (\<lambda>c st. st\<lparr>get_constructor_abi_cache := c\<rparr>)
       (chain_id, address) (get_constructor_abi_body env chain_id address)"

definition check_is_contract_body ::
  "'db env \<Rightarrow> string \<Rightarrow> string option \<Rightarrow> 'db repository \<Rightarrow> 'db repository \<times> (error + bool)" where
  "check_is_contract_body env chain_id address st =
     (if py_not address then (st, Inr False)
      else case get_semantics env chain_id address st of
             (st1, Inl e) \<Rightarrow> (st1, Inl e)
           | (st1, Inr semantics) \<Rightarrow>
               (st1, Inr (case semantics_of (heap st1) semantics of
                            None \<Rightarrow> False
                          | Some s \<Rightarrow> as_is_contract s)))"

definition check_is_contract ::
  "'db env \<Rightarrow> string \<Rightarrow> string option \<Rightarrow> 'db repository \<Rightarrow> 'db repository \<times> (error + bool)" where
  "check_is_contract env chain_id address =
     lru_cached check_is_contract_cache (\<lambda>c st. st\<lparr>check_is_contract_cache := c\<rparr>)
       (chain_id, address) (check_is_contract_body env chain_id address)"

definition get_standard_body ::
  "'db env \<Rightarrow> string \<Rightarrow> string option \<Rightarrow> 'db repository
     \<Rightarrow> 'db repository \<times> (error + string option)" where
  "get_standard_body env chain_id address st =
     (if py_not address then (st, Inr None)
      else case get_semantics env chain_id address st of
             (st1, Inl e) \<Rightarrow> (st1, Inl e)
           | (st1, Inr semantics) \<Rightarrow>
               (st1, Inr (case semantics_of (heap st1) semantics of
                            None \<Rightarrow> None
                          | Some s \<Rightarrow> as_standard s)))"

definition get_standard ::
  "'db env \<Rightarrow> string \<Rightarrow> string option \<Rightarrow> 'db repository
     \<Rightarrow> 'db repository \<times> (error + string option)" where
  "get_standard env chain_id address =
     lru_cached get_standard_cache (\<lambda>c st. st\<lparr>get_standard_cache := c\<rparr>)
       (chain_id, address) (get_standard_body env chain_id address)"

text \<open>
  \<^verbatim>\<open>proxies and address in proxies\<close>; \<^verbatim>\<open>proxies\<close> is \<^verbatim>\<open>None\<close> or a dictionary.
\<close>

definition in_proxies :: "(string \<times> proxy) list option \<Rightarrow> string \<Rightarrow> proxy option" where
  "in_proxies proxies address =
     (case proxies of None \<Rightarrow> None | Some ps \<Rightarrow> map_of ps address)"

text \<open>
  \<^verbatim>\<open>get_address_label\<close> is not memoized. \<^verbatim>\<open>semantics.erc20\<close> is read before
  \<^verbatim>\<open>semantics\<close> is tested, so \<^verbatim>\<open>None\<close> there raises \<^verbatim>\<open>AttributeError\<close>.
\<close>

definition get_address_label ::
  "'db env \<Rightarrow> string \<Rightarrow> string option \<Rightarrow> (string \<times> proxy) list option \<Rightarrow> 'db repository
     \<Rightarrow> 'db repository \<times> (error + string)" where
  "get_address_label env chain_id address proxies st =
     (if py_not address then (st, Inr [])
      else
        case int16 env (the address) of
          None \<Rightarrow> (st, Inl ValueError)
        | Some n \<Rightarrow>
            if n \<in> set (precompiles env) then (st, Inr ''Precompiled'')
            else
              (case get_semantics env chain_id address st of
                 (st1, Inl e) \<Rightarrow> (st1, Inl e)
               | (st1, Inr semantics) \<Rightarrow>
                   (case semantics_of (heap st1) semantics of
                      None \<Rightarrow> (st1, Inl AttributeError)
                    | Some s \<Rightarrow>
                        (case as_erc20 s of
                           Some erc20 \<Rightarrow> (st1, Inr (erc20_symbol erc20))
                         | None \<Rightarrow>
                             (case in_proxies proxies (the address) of
                                Some p \<Rightarrow> (st1, Inr (px_name p))
                              | None \<Rightarrow>
                                  (st1, Inr (if as_name s \<noteq> [] then as_name s
                                             else the address)))))))"

definition get_token_data ::
  "'db env \<Rightarrow> string \<Rightarrow> string option \<Rightarrow> (string \<times> proxy) list option \<Rightarrow> 'db repository
     \<Rightarrow> 'db repository
        \<times> (error + (string option \<times> string option \<times> int option \<times> string option))" where
  "get_token_data env chain_id address proxies st =
     (if py_not address then (st, Inr (None, None, None, None))
      else
        case get_semantics env chain_id address st of
          (st1, Inl e) \<Rightarrow> (st1, Inl e)
        | (st1, Inr semantics) \<Rightarrow>
            (case Option.bind (semantics_of (heap st1) semantics) as_erc20 of
               Some erc20 \<Rightarrow>
                 (st1, Inr (Some (erc20_name erc20), Some (erc20_symbol erc20),
                            Some (erc20_decimals erc20), Some ''ERC20''))
             | None \<Rightarrow>
                 (case Option.bind (in_proxies proxies (the address)) px_token of
                    Some token \<Rightarrow>
                      (st1, Inr (Some (erc20_name token), Some (erc20_symbol token),
                                 Some (erc20_decimals token), Some ''ERC20''))
                  | None \<Rightarrow>
                      (st1, Inr (Some (the address), Some ''Unknown'', Some 18,
                                 Some ''ERC20'')))))"

section \<open>What the claims speak about\<close>

text \<open>The standard that the classifier returns.\<close>

definition classified ::
  "'db env \<Rightarrow> string option \<Rightarrow> string \<Rightarrow> events_dict \<Rightarrow> functions_dict \<Rightarrow> 'db world \<Rightarrow> string option" where
  "classified env address name events functions w =
     fst (snd (decode_standard_semantics env address name events functions w))"

text \<open>The calls to collaborators made between two states of the world.\<close>

definition calls_between :: "'db world \<Rightarrow> 'db world \<Rightarrow> call list" where
  "calls_between w w' = drop (length (trace w)) (trace w')"

fun is_amend :: "call \<Rightarrow> bool" where
  "is_amend (AmendContractSemantics c) = True"
| "is_amend _ = False"

text \<open>The hashes that a sequence of calls looks up in the signature registry.\<close>

fun registry_lookups :: "call list \<Rightarrow> string list" where
  "registry_lookups [] = []"
| "registry_lookups (DbGetSignatureSemantics h # cs) = h # registry_lookups cs"
| "registry_lookups (c # cs) = registry_lookups cs"

text \<open>
  The states of the repository object that calls of its methods can reach from a new
  object. The store may also change between two calls (\<^verbatim>\<open>update_address\<close>, or
  another writer).
\<close>

inductive reachable :: "'db env \<Rightarrow> 'db repository \<Rightarrow> bool" for env :: "'db env" where
  r_init: "reachable env (init d)"
| r_store: "reachable env st \<Longrightarrow> reachable env (st\<lparr>world := (world st)\<lparr>db := d\<rparr>\<rparr>)"
| r_update_semantics:
    "reachable env st \<Longrightarrow> reachable env (st\<lparr>world := update_semantics env s (world st)\<rparr>)"
| r_insert_contract_signatures:
    "reachable env st \<Longrightarrow> reachable env (st\<lparr>world := insert_contract_signatures env cs (world st)\<rparr>)"
| r_update_or_insert_signature:
    "reachable env st \<Longrightarrow> reachable env (st\<lparr>world := update_or_insert_signature env sg (world st)\<rparr>)"
| r_record: "reachable env st \<Longrightarrow> reachable env (record_start st)"
| r_end_record: "reachable env st \<Longrightarrow> reachable env (fst (end_record st))"
| r_get_semantics:
    "reachable env st \<Longrightarrow> reachable env (fst (get_semantics env chain_id address st))"
| r_get_event_abi:
    "reachable env st \<Longrightarrow> reachable env (fst (get_event_abi env chain_id address signature st))"
| r_get_transformations:
    "reachable env st \<Longrightarrow> reachable env (fst (get_transformations env chain_id address signature st))"
| r_get_anonymous_event_abi:
    "reachable env st \<Longrightarrow> reachable env (fst (get_anonymous_event_abi env chain_id address st))"
| r_get_function_abi:
    "reachable env st \<Longrightarrow> reachable env (fst (get_function_abi env chain_id address signature st))"
| r_get_constructor_abi:
    "reachable env st \<Longrightarrow> reachable env (fst (get_constructor_abi env chain_id address st))"
| r_check_is_contract:
    "reachable env st \<Longrightarrow> reachable env (fst (check_is_contract env chain_id address st))"
| r_get_standard:
    "reachable env st \<Longrightarrow> reachable env (fst (get_standard env chain_id address st))"
| r_get_address_label:
    "reachable env st \<Longrightarrow> reachable env (fst (get_address_label env chain_id address proxies st))"
| r_get_token_data:
    "reachable env st \<Longrightarrow> reachable env (fst (get_token_data env chain_id address proxies st))"

text \<open>
  What holds of the caches in every reachable state: the cache of \<^verbatim>\<open>get_semantics\<close>
  has no result for an empty address and a reference to an object of the heap for any
  other address; the caches of the accessors have the no-result value for an empty
  address.
\<close>

definition semantics_cache_ok ::
  "address_semantics list \<Rightarrow> (string \<times> string option, ref option) lru_cache \<Rightarrow> bool" where
  "semantics_cache_ok h c =
     (\<forall>(k, v)\<in>set c. if py_not (snd k) then v = None else (\<exists>r. v = Some r \<and> r < length h))"

definition empty_address_ok :: "('k \<Rightarrow> string option) \<Rightarrow> 'v \<Rightarrow> ('k, 'v) lru_cache \<Rightarrow> bool" where
  "empty_address_ok address_of no_result c =
     (\<forall>(k, v)\<in>set c. py_not (address_of k) \<longrightarrow> v = no_result)"

definition caches_ok :: "'db repository \<Rightarrow> bool" where
  "caches_ok st =
     (semantics_cache_ok (heap st) (get_semantics_cache st)
      \<and> empty_address_ok (\<lambda>k. fst (snd k)) None (get_event_abi_cache st)
      \<and> empty_address_ok (\<lambda>k. fst (snd k)) None (get_transformations_cache st)
      \<and> empty_address_ok snd None (get_anonymous_event_abi_cache st)
      \<and> empty_address_ok (\<lambda>k. fst (snd k)) None (get_function_abi_cache st)
      \<and> empty_address_ok snd None (get_constructor_abi_cache st)
      \<and> empty_address_ok snd False (check_is_contract_cache st)
      \<and> empty_address_ok snd None (get_standard_cache st))"

text \<open>
  Between \<open>w\<close> and \<open>w'\<close> the trace was only extended, and by calls that satisfy \<open>P\<close>.
\<close>

definition calls_only :: "(call \<Rightarrow> bool) \<Rightarrow> 'db world \<Rightarrow> 'db world \<Rightarrow> bool" where
  "calls_only P w w' =
     (take (length (trace w)) (trace w') = trace w \<and> list_all P (calls_between w w'))"

text \<open>
  The \<^verbatim>\<open>FunctionSemantics\<close> that the caller holds after \<^verbatim>\<open>get_function_abi\<close> or
  \<^verbatim>\<open>get_constructor_abi\<close>: the object behind the returned reference, as it is in the
  heap after the call.
\<close>

definition returned_function ::
  "'db repository \<times> (error + function_ref option) \<Rightarrow> function_semantics option" where
  "returned_function res =
     (case snd res of
        Inl e \<Rightarrow> None
      | Inr None \<Rightarrow> None
      | Inr (Some fr) \<Rightarrow> deref_function (heap (fst res)) fr)"

section \<open>An in-memory store and example collaborators\<close>

text \<open>
  A store that keeps its three collections as lists, and collaborators that know four
  addresses: an externally owned account \<open>0xe0\<close>, a token \<open>0xc1\<close> whose interface
  the registry has, a contract \<open>0xfa\<close> with a constructor, and a contract \<open>0xba\<close>
  of which the registry knows nothing. They instantiate the theorems below at concrete
  inputs.
\<close>

record store =
  addresses :: "((string \<times> string) \<times> raw_address_semantics) list"
  contracts :: "(string \<times> raw_contract_semantics) list"
  signatures :: "signature list"

fun encode_parameter :: "parameter_semantics \<Rightarrow> raw_parameter" where
  "encode_parameter (ParameterSemantics n t cs i d) =
     RawParameter n t (Some (map encode_parameter cs)) i d"

definition encode_contract :: "contract_semantics \<Rightarrow> raw_contract_semantics" where
  "encode_contract c =
     \<lparr>rc_code_hash = cs_code_hash c, rc_name = cs_name c,
      rc_events = map (\<lambda>(k, e). (k, \<lparr>re_anonymous = ev_anonymous e, re_name = ev_name e,
                                       re_parameters = map encode_parameter (ev_parameters e)\<rparr>))
                    (cs_events c),
      rc_functions = map (\<lambda>(k, f). (k, \<lparr>rf_name = fn_name f,
                                          rf_inputs = map encode_parameter (fn_inputs f),
                                          rf_outputs = map encode_parameter (fn_outputs f)\<rparr>))
                       (cs_functions c),
      rc_transformations = cs_transformations c\<rparr>"

fun store_signature :: "signature \<Rightarrow> bool \<Rightarrow> signature list \<Rightarrow> signature list" where
  "store_signature s update_if_exist [] = [s]"
| "store_signature s update_if_exist (x # xs) =
     (if update_if_exist \<and> sig_matches s x then s # xs
      else x # store_signature s update_if_exist xs)"

definition example_events :: events_dict where
  "example_events =
     [(''0xddf252ad'', \<lparr>ev_signature = ''0xddf252ad'', ev_anonymous = False, ev_name = ''Transfer'',
                        ev_parameters = []\<rparr>),
      (''0x8c5be1e5'', \<lparr>ev_signature = ''0x8c5be1e5'', ev_anonymous = False, ev_name = ''Approval'',
                        ev_parameters = []\<rparr>)]"

definition example_functions :: functions_dict where
  "example_functions =
     [(''0x70a08231'', \<lparr>fn_signature = ''0x70a08231'', fn_name = ''balanceOf'',
                        fn_inputs = [ParameterSemantics ''owner'' ''address'' [] False False],
                        fn_outputs = [ParameterSemantics '''' ''uint256'' [] False False]\<rparr>),
      (''0xa9059cbb'', \<lparr>fn_signature = ''0xa9059cbb'', fn_name = ''transfer'',
                        fn_inputs = [ParameterSemantics ''to'' ''address'' [] False False,
                                     ParameterSemantics ''value'' ''uint256'' [] False False],
                        fn_outputs = [ParameterSemantics '''' ''bool'' [] False False]\<rparr>)]"

definition factory_functions :: functions_dict where
  "factory_functions =
     [(''constructor'', \<lparr>fn_signature = ''constructor'', fn_name = ''constructor'',
                         fn_inputs = [ParameterSemantics ''owner'' ''address'' [] False False],
                         fn_outputs = []\<rparr>),
      (''0x9c4ae2d0'', \<lparr>fn_signature = ''0x9c4ae2d0'', fn_name = ''deploy'',
                        fn_inputs = [ParameterSemantics ''params'' ''tuple''
                                       [ParameterSemantics ''code'' ''bytes'' [] False True,
                                        ParameterSemantics ''salt'' ''uint256'' [] False False]
                                       False True],
                        fn_outputs = []\<rparr>)]"

definition example_env :: "store env" where
  "example_env =
     \<lparr>db_get_address_semantics = (\<lambda>d chain_id address. map_of (addresses d) (chain_id, address)),
      db_get_contract_semantics = (\<lambda>d code_hash. map_of (contracts d) code_hash),
      db_get_signature_semantics = (\<lambda>d h. filter (\<lambda>s. signature_hash s = h) (signatures d)),
      db_insert_contract = (\<lambda>d c u.
         (d\<lparr>contracts := (cs_code_hash c, encode_contract c) # del_key (cs_code_hash c) (contracts d)\<rparr>,
          True)),
      db_insert_address = (\<lambda>d r u.
         d\<lparr>addresses := ((ra_chain_id r, ra_address r), r)
                          # del_key (ra_chain_id r, ra_address r) (addresses d)\<rparr>),
      db_insert_signature = (\<lambda>d s u. d\<lparr>signatures := store_signature s u (signatures d)\<rparr>),
      ens_name = (\<lambda>chain_id address. if address = ''0xe0'' then ''alice.eth'' else address),
      get_code_hash = (\<lambda>address chain_id.
         if address = ''0xc1'' then ''0x11'' else if address = ''0xfa'' then ''0x22''
         else if address = ''0xba'' then ''0x33'' else ZERO_HASH),
      get_contract_abi = (\<lambda>chain_id address.
         if address = ''0xc1'' then (Some \<lparr>rs_name = ''Token'', rs_abi = ''erc20''\<rparr>, True)
         else if address = ''0xfa'' then (Some \<lparr>rs_name = ''Factory'', rs_abi = ''factory''\<rparr>, True)
         else (None, False)),
      decode_events_and_functions = (\<lambda>abi.
         if abi = ''erc20'' then (example_events, example_functions)
         else if abi = ''factory'' then ([], factory_functions) else ([], [])),
      get_erc20_token = (\<lambda>address name functions. None),
      guess_erc20_proxy = (\<lambda>address chain_id. None),
      guess_erc20_token = (\<lambda>address chain_id. None),
      amend_contract_semantics = (\<lambda>c. c),
      ERC20_EVENTS = [''0xddf252ad'', ''0x8c5be1e5''],
      ERC20_FUNCTIONS = [''0x70a08231'', ''0xa9059cbb''],
      ERC721_EVENTS = [''0xddf252ad'', ''0x17307eab''],
      ERC721_FUNCTIONS = [''0x6352211e''],
      precompiles = [1, 2, 3, 4, 5, 6, 7, 8, 9],
      int16 = (\<lambda>s. if s = ''0x01'' then Some 1 else if s = ''0xe0'' then Some 224
                   else if s = ''0xc1'' then Some 193 else if s = ''0xfa'' then Some 250
                   else None),
      signature_defaults = \<lparr>default_count = 1, default_tuple = False, default_guessed = True\<rparr>\<rparr>"

text \<open>
  The same collaborators with a \<^verbatim>\<open>Signature\<close> class whose \<^verbatim>\<open>guessed\<close> defaults to
  false.
\<close>

definition unguessed_env :: "store env" where
  "unguessed_env =
     example_env\<lparr>signature_defaults :=
       \<lparr>default_count = 1, default_tuple = False, default_guessed = False\<rparr>\<rparr>"

definition empty_store :: store where
  "empty_store = \<lparr>addresses = [], contracts = [], signatures = []\<rparr>"

definition empty_world :: "store world" where
  "empty_world = \<lparr>db = empty_store, trace = []\<rparr>"

text \<open>
  A registry with three entries for the selector of \<open>transfer\<close>: one with another
  number of arguments, and two with the name and the number of arguments of the
  function of \<open>example_functions\<close>, the first of them with generic argument names.
\<close>

definition transfer_signature :: signature where
  "transfer_signature =
     \<lparr>signature_hash = ''0xa9059cbb'', sig_name = ''transfer'',
      sig_args = [\<lparr>arg_name = ''to'', arg_type = ''address''\<rparr>,
                  \<lparr>arg_name = ''value'', arg_type = ''uint256''\<rparr>],
      sig_count = 1, sig_tuple = False, sig_guessed = True\<rparr>"

definition entry_one_arg :: signature where
  "entry_one_arg =
     \<lparr>signature_hash = ''0xa9059cbb'', sig_name = ''transfer'',
      sig_args = [\<lparr>arg_name = ''arg0'', arg_type = ''address''\<rparr>],
      sig_count = 2, sig_tuple = False, sig_guessed = True\<rparr>"

definition entry_generic :: signature where
  "entry_generic =
     \<lparr>signature_hash = ''0xa9059cbb'', sig_name = ''transfer'',
      sig_args = [\<lparr>arg_name = ''arg0'', arg_type = ''address''\<rparr>,
                  \<lparr>arg_name = ''arg1'', arg_type = ''uint256''\<rparr>],
      sig_count = 5, sig_tuple = False, sig_guessed = True\<rparr>"

definition entry_second :: signature where
  "entry_second =
     \<lparr>signature_hash = ''0xa9059cbb'', sig_name = ''transfer'',
      sig_args = [\<lparr>arg_name = ''dst'', arg_type = ''address''\<rparr>,
                  \<lparr>arg_name = ''wad'', arg_type = ''uint256''\<rparr>],
      sig_count = 1, sig_tuple = False, sig_guessed = True\<rparr>"

definition registry_world :: "store world" where
  "registry_world =
     \<lparr>db = \<lparr>addresses = [], contracts = [],
             signatures = [entry_one_arg, entry_generic, entry_second]\<rparr>,
      trace = []\<rparr>"

definition factory_contract :: contract_semantics where
  "factory_contract =
     \<lparr>cs_code_hash = ''0x22'', cs_name = ''Factory'', cs_events = [],
      cs_functions = factory_functions, cs_transformations = []\<rparr>"

text \<open>The repository after one resolution of the externally owned account.\<close>

definition after_eoa :: "store repository" where
  "after_eoa = fst (get_semantics example_env ''1'' (Some ''0xe0'') (init empty_store))"

text \<open>The same resolution with recording switched on before it.\<close>

definition recorded_eoa :: "store repository" where
  "recorded_eoa =
     fst (get_semantics example_env ''1'' (Some ''0xe0'') (record_start (init empty_store)))"

text \<open>
  A store whose record for \<open>0xe1\<close> refers to the zero hash, is flagged as a contract,
  and carries a standard and a token descriptor.
\<close>

definition flagged_store :: store where
  "flagged_store =
     \<lparr>addresses =
        [((''1'', ''0xe1''),
          \<lparr>ra_chain_id = ''1'', ra_address = ''0xe1'', ra_name = Some ''Vault'',
           ra_is_contract = True, ra_contract = ZERO_HASH, ra_standard = Some ''ERC20'',
           ra_erc20 = Some \<lparr>erc20_name = ''Vault'', erc20_symbol = ''VLT'', erc20_decimals = 18\<rparr>\<rparr>)],
      contracts = [], signatures = []\<rparr>"

text \<open>
  The repository after one constructor lookup for the factory, and 128 other chain
  identifiers: \<open>2\<close>, \<open>22\<close>, \<open>222\<close> and so on.
\<close>

definition after_factory :: "store repository" where
  "after_factory = fst (get_constructor_abi example_env ''1'' (Some ''0xfa'') (init empty_store))"

definition other_chains :: "string list" where
  "other_chains = map (\<lambda>n. replicate (Suc n) (CHR ''2'')) [0..<128]"

text \<open>Constructor lookups with an empty address, one for each of the chain identifiers.\<close>

definition empty_lookups :: "'db env \<Rightarrow> string list \<Rightarrow> 'db repository \<Rightarrow> 'db repository" where
  "empty_lookups env chain_ids st =
     fold (\<lambda>chain_id st. fst (get_constructor_abi env chain_id (Some []) st)) chain_ids st"


section \<open>Memoization\<close>

lemma lru_cached_hit:
  "map_of (get_cache st) key = Some v \<Longrightarrow>
     lru_cached get_cache set_cache key f st = (set_cache (lru_hit key v (get_cache st)) st, Inr v)"
  by (simp add: lru_cached_def)

lemma lru_cached_miss:
  "map_of (get_cache st) key = None \<Longrightarrow>
     lru_cached get_cache set_cache key f st =
       (case f st of
          (st', Inl e) \<Rightarrow> (st', Inl e)
        | (st', Inr v) \<Rightarrow> (set_cache (lru_store key v (get_cache st')) st', Inr v))"
  by (simp add: lru_cached_def)

lemma set_lru_hit: "map_of c k = Some v \<Longrightarrow> set (lru_hit k v c) \<subseteq> set c"
  by (auto simp: lru_hit_def del_key_def dest: map_of_SomeD)

lemma set_lru_store: "set (lru_store k v c) \<subseteq> insert (k, v) (set c)"
  by (auto simp: lru_store_def dest: in_set_butlastD)

lemma semantics_cache_ok_hit:
  "semantics_cache_ok h c \<Longrightarrow> map_of c k = Some v \<Longrightarrow> semantics_cache_ok h (lru_hit k v c)"
  using set_lru_hit [of c k v] unfolding semantics_cache_ok_def by blast

lemma semantics_cache_ok_store:
  "semantics_cache_ok h c \<Longrightarrow>
     (if py_not (snd k) then v = None else (\<exists>r. v = Some r \<and> r < length h)) \<Longrightarrow>
     semantics_cache_ok h (lru_store k v c)"
  using set_lru_store [of k v c] unfolding semantics_cache_ok_def by blast

lemma semantics_cache_ok_mono:
  "semantics_cache_ok h c \<Longrightarrow> length h \<le> length h' \<Longrightarrow> semantics_cache_ok h' c"
  unfolding semantics_cache_ok_def by (fastforce split: if_splits)

lemma empty_address_ok_hit:
  "empty_address_ok a d c \<Longrightarrow> map_of c k = Some v \<Longrightarrow> empty_address_ok a d (lru_hit k v c)"
  using set_lru_hit [of c k v] unfolding empty_address_ok_def by blast

lemma empty_address_ok_store:
  "empty_address_ok a d c \<Longrightarrow> (py_not (a k) \<longrightarrow> v = d) \<Longrightarrow> empty_address_ok a d (lru_store k v c)"
  using set_lru_store [of k v c] unfolding empty_address_ok_def by blast

lemma empty_address_ok_lookup:
  "empty_address_ok a d c \<Longrightarrow> map_of c k = Some v \<Longrightarrow> py_not (a k) \<Longrightarrow> v = d"
  unfolding empty_address_ok_def by (auto dest: map_of_SomeD)

lemma semantics_cache_ok_lookup:
  "semantics_cache_ok h c \<Longrightarrow> map_of c k = Some v \<Longrightarrow>
     (if py_not (snd k) then v = None else (\<exists>r. v = Some r \<and> r < length h))"
  unfolding semantics_cache_ok_def by (auto dest!: map_of_SomeD)

section \<open>get_semantics, case by case\<close>

lemma get_semantics_cases:
  "get_semantics env chain_id address st =
     (case map_of (get_semantics_cache st) (chain_id, address) of
        Some v \<Rightarrow>
          (st\<lparr>get_semantics_cache := lru_hit (chain_id, address) v (get_semantics_cache st)\<rparr>, Inr v)
      | None \<Rightarrow>
          if py_not address then
            (st\<lparr>get_semantics_cache := lru_store (chain_id, address) None (get_semantics_cache st)\<rparr>,
             Inr None)
          else
            (case resolve_tiers env chain_id address (world st) of
               (w, Inl e) \<Rightarrow> (st\<lparr>world := w\<rparr>, Inl e)
             | (w, Inr s) \<Rightarrow>
                 (st\<lparr>world := log (AmendContractSemantics (as_contract s)) w,
                     records := (case records st of None \<Rightarrow> None
                                 | Some rs \<Rightarrow> Some (rs @ [the address])),
                     heap := heap st @ [s\<lparr>as_contract := amend_contract_semantics env (as_contract s)\<rparr>],
                     get_semantics_cache :=
                       lru_store (chain_id, address) (Some (length (heap st))) (get_semantics_cache st)\<rparr>,
                  Inr (Some (length (heap st))))))"
  by (simp add: get_semantics_def lru_cached_def get_semantics_body_def
      split: option.split prod.split sum.split)


lemma get_semantics_effect:
  assumes g: "get_semantics env chain_id address st = (st1, r)"
  shows "get_event_abi_cache st1 = get_event_abi_cache st"
    and "get_transformations_cache st1 = get_transformations_cache st"
    and "get_anonymous_event_abi_cache st1 = get_anonymous_event_abi_cache st"
    and "get_function_abi_cache st1 = get_function_abi_cache st"
    and "get_constructor_abi_cache st1 = get_constructor_abi_cache st"
    and "check_is_contract_cache st1 = check_is_contract_cache st"
    and "get_standard_cache st1 = get_standard_cache st"
    and "length (heap st) \<le> length (heap st1)"
  using g unfolding get_semantics_cases
  by (auto split: option.splits if_splits prod.splits sum.splits)

lemma get_semantics_cache_ok:
  assumes g: "get_semantics env chain_id address st = (st1, r)"
    and ok: "semantics_cache_ok (heap st) (get_semantics_cache st)"
  shows "semantics_cache_ok (heap st1) (get_semantics_cache st1)"
proof (cases "map_of (get_semantics_cache st) (chain_id, address)")
  case (Some v)
  with g ok show ?thesis
    by (auto simp: get_semantics_cases semantics_cache_ok_hit)
next
  case None
  show ?thesis
  proof (cases "py_not address")
    case True
    with None g ok show ?thesis
      by (auto simp: get_semantics_cases intro!: semantics_cache_ok_store)
  next
    case False
    obtain w x where rt: "resolve_tiers env chain_id address (world st) = (w, x)"
      by (cases "resolve_tiers env chain_id address (world st)")
    show ?thesis
    proof (cases x)
      case (Inl e)
      with None False rt g ok show ?thesis
        by (auto simp: get_semantics_cases)
    next
      case (Inr s)
      have "semantics_cache_ok
              (heap st @ [s\<lparr>as_contract := amend_contract_semantics env (as_contract s)\<rparr>])
              (lru_store (chain_id, address) (Some (length (heap st))) (get_semantics_cache st))"
        by (rule semantics_cache_ok_store)
           (use ok False in \<open>auto intro: semantics_cache_ok_mono\<close>)
      with None False rt Inr g show ?thesis
        by (auto simp: get_semantics_cases)
    qed
  qed
qed

lemma get_semantics_caches_ok:
  assumes g: "get_semantics env chain_id address st = (st1, r)" and ok: "caches_ok st"
  shows "caches_ok st1"
  using ok get_semantics_effect [OF g] get_semantics_cache_ok [OF g]
  by (simp add: caches_ok_def)



section \<open>The caches in reachable states\<close>

lemma lru_cached_preserves:
  assumes hit: "\<And>v. map_of (get_cache st) key = Some v
        \<Longrightarrow> P (set_cache (lru_hit key v (get_cache st)) st)"
    and miss: "\<And>st' v. f st = (st', Inr v) \<Longrightarrow> P (set_cache (lru_store key v (get_cache st')) st')"
    and err: "\<And>st' e. f st = (st', Inl e) \<Longrightarrow> P st'"
  shows "P (fst (lru_cached get_cache set_cache key f st))"
proof (cases "map_of (get_cache st) key")
  case (Some v)
  with hit show ?thesis by (simp add: lru_cached_def)
next
  case None
  obtain st' x where f: "f st = (st', x)" by (cases "f st")
  with None miss err show ?thesis
    by (cases x) (simp_all add: lru_cached_def)
qed


text \<open>A body of an accessor keeps the caches well-formed, and answers an empty address at once.\<close>

lemma get_event_abi_body_ok:
  assumes "get_event_abi_body env chain_id address signature st = (st', x)" and "caches_ok st"
  shows "caches_ok st'" and "py_not address \<Longrightarrow> x = Inr None \<and> st' = st"
  using assms get_semantics_caches_ok [of env chain_id address st]
  by (auto simp: get_event_abi_body_def split: if_splits prod.splits sum.splits)

lemma get_transformations_body_ok:
  assumes "get_transformations_body env chain_id address signature st = (st', x)" and "caches_ok st"
  shows "caches_ok st'" and "py_not address \<Longrightarrow> x = Inr None \<and> st' = st"
  using assms get_semantics_caches_ok [of env chain_id address st]
  by (auto simp: get_transformations_body_def split: if_splits prod.splits sum.splits)

lemma get_anonymous_event_abi_body_ok:
  assumes "get_anonymous_event_abi_body env chain_id address st = (st', x)" and "caches_ok st"
  shows "caches_ok st'" and "py_not address \<Longrightarrow> x = Inr None \<and> st' = st"
  using assms get_semantics_caches_ok [of env chain_id address st]
  by (auto simp: get_anonymous_event_abi_body_def split: if_splits prod.splits sum.splits)

lemma get_function_abi_body_ok:
  assumes "get_function_abi_body env chain_id address signature st = (st', x)" and "caches_ok st"
  shows "caches_ok st'" and "py_not address \<Longrightarrow> x = Inr None \<and> st' = st"
  using assms get_semantics_caches_ok [of env chain_id address st]
  by (auto simp: get_function_abi_body_def split: if_splits prod.splits sum.splits)

lemma length_append_output [simp]: "length (append_output fr p h) = length h"
  by (simp add: append_output_def split: option.split)

lemma caches_ok_heap_update:
  "caches_ok st \<Longrightarrow> length h = length (heap st) \<Longrightarrow> caches_ok (st\<lparr>heap := h\<rparr>)"
  by (auto simp: caches_ok_def intro: semantics_cache_ok_mono)

lemma get_constructor_abi_body_ok:
  assumes "get_constructor_abi_body env chain_id address st = (st', x)" and "caches_ok st"
  shows "caches_ok st'" and "py_not address \<Longrightarrow> x = Inr None \<and> st' = st"
  using assms get_semantics_caches_ok [of env chain_id address st]
  by (auto simp: get_constructor_abi_body_def caches_ok_heap_update
      split: if_splits prod.splits sum.splits option.splits)

lemma check_is_contract_body_ok:
  assumes "check_is_contract_body env chain_id address st = (st', x)" and "caches_ok st"
  shows "caches_ok st'" and "py_not address \<Longrightarrow> x = Inr False \<and> st' = st"
  using assms get_semantics_caches_ok [of env chain_id address st]
  by (auto simp: check_is_contract_body_def split: if_splits prod.splits sum.splits)

lemma get_standard_body_ok:
  assumes "get_standard_body env chain_id address st = (st', x)" and "caches_ok st"
  shows "caches_ok st'" and "py_not address \<Longrightarrow> x = Inr None \<and> st' = st"
  using assms get_semantics_caches_ok [of env chain_id address st]
  by (auto simp: get_standard_body_def split: if_splits prod.splits sum.splits)

lemma get_event_abi_caches_ok:
  assumes ok: "caches_ok st"
  shows "caches_ok (fst (get_event_abi env chain_id address signature st))"
  unfolding get_event_abi_def
proof (rule lru_cached_preserves)
  fix v assume "map_of (get_event_abi_cache st) (chain_id, address, signature) = Some v"
  with ok show "caches_ok (st\<lparr>get_event_abi_cache :=
      lru_hit (chain_id, address, signature) v (get_event_abi_cache st)\<rparr>)"
    by (simp add: caches_ok_def empty_address_ok_hit)
next
  fix st' v
  assume "get_event_abi_body env chain_id address signature st = (st', Inr v)"
  from get_event_abi_body_ok [OF this ok]
  show "caches_ok (st'\<lparr>get_event_abi_cache :=
      lru_store (chain_id, address, signature) v (get_event_abi_cache st')\<rparr>)"
    by (simp add: caches_ok_def empty_address_ok_store)
next
  fix st' e
  assume "get_event_abi_body env chain_id address signature st = (st', Inl e)"
  from get_event_abi_body_ok(1) [OF this ok] show "caches_ok st'" .
qed

lemma get_transformations_caches_ok:
  assumes ok: "caches_ok st"
  shows "caches_ok (fst (get_transformations env chain_id address signature st))"
  unfolding get_transformations_def
proof (rule lru_cached_preserves)
  fix v assume "map_of (get_transformations_cache st) (chain_id, address, signature) = Some v"
  with ok show "caches_ok (st\<lparr>get_transformations_cache :=
      lru_hit (chain_id, address, signature) v (get_transformations_cache st)\<rparr>)"
    by (simp add: caches_ok_def empty_address_ok_hit)
next
  fix st' v
  assume "get_transformations_body env chain_id address signature st = (st', Inr v)"
  from get_transformations_body_ok [OF this ok]
  show "caches_ok (st'\<lparr>get_transformations_cache :=
      lru_store (chain_id, address, signature) v (get_transformations_cache st')\<rparr>)"
    by (simp add: caches_ok_def empty_address_ok_store)
next
  fix st' e
  assume "get_transformations_body env chain_id address signature st = (st', Inl e)"
  from get_transformations_body_ok(1) [OF this ok] show "caches_ok st'" .
qed

lemma get_anonymous_event_abi_caches_ok:
  assumes ok: "caches_ok st"
  shows "caches_ok (fst (get_anonymous_event_abi env chain_id address st))"
  unfolding get_anonymous_event_abi_def
proof (rule lru_cached_preserves)
  fix v assume "map_of (get_anonymous_event_abi_cache st) (chain_id, address) = Some v"
  with ok show "caches_ok (st\<lparr>get_anonymous_event_abi_cache :=
      lru_hit (chain_id, address) v (get_anonymous_event_abi_cache st)\<rparr>)"
    by (simp add: caches_ok_def empty_address_ok_hit)
next
  fix st' v
  assume "get_anonymous_event_abi_body env chain_id address st = (st', Inr v)"
  from get_anonymous_event_abi_body_ok [OF this ok]
  show "caches_ok (st'\<lparr>get_anonymous_event_abi_cache :=
      lru_store (chain_id, address) v (get_anonymous_event_abi_cache st')\<rparr>)"
    by (simp add: caches_ok_def empty_address_ok_store)
next
  fix st' e
  assume "get_anonymous_event_abi_body env chain_id address st = (st', Inl e)"
  from get_anonymous_event_abi_body_ok(1) [OF this ok] show "caches_ok st'" .
qed

lemma get_function_abi_caches_ok:
  assumes ok: "caches_ok st"
  shows "caches_ok (fst (get_function_abi env chain_id address signature st))"
  unfolding get_function_abi_def
proof (rule lru_cached_preserves)
  fix v assume "map_of (get_function_abi_cache st) (chain_id, address, signature) = Some v"
  with ok show "caches_ok (st\<lparr>get_function_abi_cache :=
      lru_hit (chain_id, address, signature) v (get_function_abi_cache st)\<rparr>)"
    by (simp add: caches_ok_def empty_address_ok_hit)
next
  fix st' v
  assume "get_function_abi_body env chain_id address signature st = (st', Inr v)"
  from get_function_abi_body_ok [OF this ok]
  show "caches_ok (st'\<lparr>get_function_abi_cache :=
      lru_store (chain_id, address, signature) v (get_function_abi_cache st')\<rparr>)"
    by (simp add: caches_ok_def empty_address_ok_store)
next
  fix st' e
  assume "get_function_abi_body env chain_id address signature st = (st', Inl e)"
  from get_function_abi_body_ok(1) [OF this ok] show "caches_ok st'" .
qed

lemma get_constructor_abi_caches_ok:
  assumes ok: "caches_ok st"
  shows "caches_ok (fst (get_constructor_abi env chain_id address st))"
  unfolding get_constructor_abi_def
proof (rule lru_cached_preserves)
  fix v assume "map_of (get_constructor_abi_cache st) (chain_id, address) = Some v"
  with ok show "caches_ok (st\<lparr>get_constructor_abi_cache :=
      lru_hit (chain_id, address) v (get_constructor_abi_cache st)\<rparr>)"
    by (simp add: caches_ok_def empty_address_ok_hit)
next
  fix st' v
  assume "get_constructor_abi_body env chain_id address st = (st', Inr v)"
  from get_constructor_abi_body_ok [OF this ok]
  show "caches_ok (st'\<lparr>get_constructor_abi_cache :=
      lru_store (chain_id, address) v (get_constructor_abi_cache st')\<rparr>)"
    by (simp add: caches_ok_def empty_address_ok_store)
next
  fix st' e
  assume "get_constructor_abi_body env chain_id address st = (st', Inl e)"
  from get_constructor_abi_body_ok(1) [OF this ok] show "caches_ok st'" .
qed

lemma check_is_contract_caches_ok:
  assumes ok: "caches_ok st"
  shows "caches_ok (fst (check_is_contract env chain_id address st))"
  unfolding check_is_contract_def
proof (rule lru_cached_preserves)
  fix v assume "map_of (check_is_contract_cache st) (chain_id, address) = Some v"
  with ok show "caches_ok (st\<lparr>check_is_contract_cache :=
      lru_hit (chain_id, address) v (check_is_contract_cache st)\<rparr>)"
    by (simp add: caches_ok_def empty_address_ok_hit)
next
  fix st' v
  assume "check_is_contract_body env chain_id address st = (st', Inr v)"
  from check_is_contract_body_ok [OF this ok]
  show "caches_ok (st'\<lparr>check_is_contract_cache :=
      lru_store (chain_id, address) v (check_is_contract_cache st')\<rparr>)"
    by (simp add: caches_ok_def empty_address_ok_store)
next
  fix st' e
  assume "check_is_contract_body env chain_id address st = (st', Inl e)"
  from check_is_contract_body_ok(1) [OF this ok] show "caches_ok st'" .
qed

lemma get_standard_caches_ok:
  assumes ok: "caches_ok st"
  shows "caches_ok (fst (get_standard env chain_id address st))"
  unfolding get_standard_def
proof (rule lru_cached_preserves)
  fix v assume "map_of (get_standard_cache st) (chain_id, address) = Some v"
  with ok show "caches_ok (st\<lparr>get_standard_cache :=
      lru_hit (chain_id, address) v (get_standard_cache st)\<rparr>)"
    by (simp add: caches_ok_def empty_address_ok_hit)
next
  fix st' v
  assume "get_standard_body env chain_id address st = (st', Inr v)"
  from get_standard_body_ok [OF this ok]
  show "caches_ok (st'\<lparr>get_standard_cache :=
      lru_store (chain_id, address) v (get_standard_cache st')\<rparr>)"
    by (simp add: caches_ok_def empty_address_ok_store)
next
  fix st' e
  assume "get_standard_body env chain_id address st = (st', Inl e)"
  from get_standard_body_ok(1) [OF this ok] show "caches_ok st'" .
qed

lemma get_address_label_caches_ok:
  assumes ok: "caches_ok st"
  shows "caches_ok (fst (get_address_label env chain_id address proxies st))"
  using ok get_semantics_caches_ok [of env chain_id address st]
  by (auto simp: get_address_label_def split: if_splits prod.splits sum.splits option.splits)

lemma get_token_data_caches_ok:
  assumes ok: "caches_ok st"
  shows "caches_ok (fst (get_token_data env chain_id address proxies st))"
  using ok get_semantics_caches_ok [of env chain_id address st]
  by (auto simp: get_token_data_def split: if_splits prod.splits sum.splits option.splits)

lemma reachable_caches_ok: "reachable env st \<Longrightarrow> caches_ok st"
proof (induction rule: reachable.induct)
  case (r_init d)
  show ?case
    by (simp add: caches_ok_def init_def semantics_cache_ok_def empty_address_ok_def)
next
  case (r_get_semantics st chain_id address)
  then show ?case
    using get_semantics_caches_ok [of env chain_id address st] by (metis prod.collapse)
qed (simp_all add: get_event_abi_caches_ok get_transformations_caches_ok
    get_anonymous_event_abi_caches_ok get_function_abi_caches_ok get_constructor_abi_caches_ok
    check_is_contract_caches_ok get_standard_caches_ok get_address_label_caches_ok
    get_token_data_caches_ok, simp_all add: caches_ok_def record_start_def end_record_def)

section \<open>Signature registry: update of the first match, or insertion\<close>

lemma update_or_insert_loop_find:
  "update_or_insert_loop env signature sigs w =
     (case find (sig_matches signature) sigs of
        Some sig \<Rightarrow> do_insert_signature env (updated_entry signature sig) True w
      | None \<Rightarrow> do_insert_signature env signature False w)"
  by (induction sigs) auto

lemma find_first_match:
  "\<forall>x\<in>set pre. \<not> P x \<Longrightarrow> P y \<Longrightarrow> find P (pre @ y # post) = Some y"
  by (induction pre) auto

lemma find_no_match: "\<forall>x\<in>set xs. \<not> P x \<Longrightarrow> find P xs = None"
  by (induction xs) auto

lemma overwrite_args_length:
  assumes len: "length (sig_args signature) = length (sig_args sig)"
  shows "sig_args (overwrite_args signature sig) = sig_args signature"
proof -
  have "\<And>bs. length (bs :: signature_arg list) = length as \<Longrightarrow>
      map (\<lambda>(argument, new). argument\<lparr>arg_name := arg_name new, arg_type := arg_type new\<rparr>)
        (zip as bs) = bs" for as :: "signature_arg list"
  proof (induction as)
    case Nil
    then show ?case by simp
  next
    case (Cons a as)
    then show ?case by (cases bs) auto
  qed
  with len show ?thesis by (simp add: overwrite_args_def)
qed

lemma updated_entry_fields:
  assumes "sig_matches signature sig"
  shows "sig_count (updated_entry signature sig) = sig_count sig + 1"
    and "\<not> sig_guessed (updated_entry signature sig)"
    and "signature_hash (updated_entry signature sig) = signature_hash sig"
    and "sig_name (updated_entry signature sig) = sig_name sig"
    and "sig_tuple (updated_entry signature sig) = sig_tuple sig"
    and "sig_args (updated_entry signature sig) =
           (if args_look_generic signature sig then sig_args signature else sig_args sig)"
  using assms overwrite_args_length [of signature sig]
  by (auto simp: updated_entry_def Let_def sig_matches_def overwrite_args_def)

text \<open>
  C4, as the code has it. When the entries that the store returns for the hash have a
  first entry that matches the signature on name, hash and number of arguments, the
  registration makes one lookup and one write: it stores, with
  \<^verbatim>\<open>update_if_exist=True\<close>, that entry with its count raised by one and its guessed
  flag false; hash, name, number of arguments and tuple flag of the entry stay. No other
  entry is written. When no entry matches, it makes one lookup and one write, of the
  signature as it was passed in. In both cases the entry written is guessed exactly when
  it is the new entry of a signature that was passed in as guessed: the registration never
  sets the flag to true, and the flag of a new entry is the one that the signature
  carries.
\<close>

theorem update_or_insert_signature_registry:
  "(\<forall>pre sig post.
      db_get_signature_semantics env (db w) (signature_hash signature) = pre @ sig # post
        \<and> (\<forall>x\<in>set pre. \<not> sig_matches signature x) \<and> sig_matches signature sig
      \<longrightarrow> update_or_insert_signature env signature w =
            \<lparr>db = db_insert_signature env (db w) (updated_entry signature sig) True,
             trace = trace w @ [DbGetSignatureSemantics (signature_hash signature),
                                DbInsertSignature (updated_entry signature sig) True]\<rparr>
          \<and> sig_count (updated_entry signature sig) = sig_count sig + 1
          \<and> \<not> sig_guessed (updated_entry signature sig)
          \<and> signature_hash (updated_entry signature sig) = signature_hash sig
          \<and> sig_name (updated_entry signature sig) = sig_name sig
          \<and> length (sig_args (updated_entry signature sig)) = length (sig_args sig)
          \<and> sig_tuple (updated_entry signature sig) = sig_tuple sig)
   \<and> ((\<forall>x\<in>set (db_get_signature_semantics env (db w) (signature_hash signature)).
          \<not> sig_matches signature x)
      \<longrightarrow> update_or_insert_signature env signature w =
            \<lparr>db = db_insert_signature env (db w) signature False,
             trace = trace w @ [DbGetSignatureSemantics (signature_hash signature),
                                DbInsertSignature signature False]\<rparr>)
   \<and> (\<exists>e u. calls_between w (update_or_insert_signature env signature w) =
              [DbGetSignatureSemantics (signature_hash signature), DbInsertSignature e u]
          \<and> sig_guessed e = (\<not> u \<and> sig_guessed signature)
          \<and> (u \<or> e = signature))"
proof (intro conjI allI impI)
  fix pre sig post
  assume h: "db_get_signature_semantics env (db w) (signature_hash signature) = pre @ sig # post
        \<and> (\<forall>x\<in>set pre. \<not> sig_matches signature x) \<and> sig_matches signature sig"
  then have f: "find (sig_matches signature)
      (db_get_signature_semantics env (db w) (signature_hash signature)) = Some sig"
    by (simp add: find_first_match)
  show "update_or_insert_signature env signature w =
            \<lparr>db = db_insert_signature env (db w) (updated_entry signature sig) True,
             trace = trace w @ [DbGetSignatureSemantics (signature_hash signature),
                                DbInsertSignature (updated_entry signature sig) True]\<rparr>"
    by (simp add: update_or_insert_signature_def update_or_insert_loop_find f
        do_insert_signature_def log_def)
  from h have m: "sig_matches signature sig" by simp
  show "sig_count (updated_entry signature sig) = sig_count sig + 1"
    "\<not> sig_guessed (updated_entry signature sig)"
    "signature_hash (updated_entry signature sig) = signature_hash sig"
    "sig_name (updated_entry signature sig) = sig_name sig"
    "sig_tuple (updated_entry signature sig) = sig_tuple sig"
    using updated_entry_fields [OF m] by simp_all
  show "length (sig_args (updated_entry signature sig)) = length (sig_args sig)"
    using updated_entry_fields(6) [OF m] m by (simp add: sig_matches_def)
next
  assume "\<forall>x\<in>set (db_get_signature_semantics env (db w) (signature_hash signature)).
          \<not> sig_matches signature x"
  then have "find (sig_matches signature)
      (db_get_signature_semantics env (db w) (signature_hash signature)) = None"
    by (rule find_no_match)
  then show "update_or_insert_signature env signature w =
            \<lparr>db = db_insert_signature env (db w) signature False,
             trace = trace w @ [DbGetSignatureSemantics (signature_hash signature),
                                DbInsertSignature signature False]\<rparr>"
    by (simp add: update_or_insert_signature_def update_or_insert_loop_find
        do_insert_signature_def log_def)
next
  let ?sigs = "db_get_signature_semantics env (db w) (signature_hash signature)"
  show "\<exists>e u. calls_between w (update_or_insert_signature env signature w) =
              [DbGetSignatureSemantics (signature_hash signature), DbInsertSignature e u]
          \<and> sig_guessed e = (\<not> u \<and> sig_guessed signature)
          \<and> (u \<or> e = signature)"
  proof (cases "find (sig_matches signature) ?sigs")
    case None
    then have "calls_between w (update_or_insert_signature env signature w) =
        [DbGetSignatureSemantics (signature_hash signature), DbInsertSignature signature False]"
      by (simp add: update_or_insert_signature_def update_or_insert_loop_find
          do_insert_signature_def log_def calls_between_def)
    then show ?thesis by auto
  next
    case (Some sig)
    then have m: "sig_matches signature sig"
      by (auto simp: find_Some_iff)
    from Some have "calls_between w (update_or_insert_signature env signature w) =
        [DbGetSignatureSemantics (signature_hash signature),
         DbInsertSignature (updated_entry signature sig) True]"
      by (simp add: update_or_insert_signature_def update_or_insert_loop_find
          do_insert_signature_def log_def calls_between_def)
    with updated_entry_fields(2) [OF m] show ?thesis by auto
  qed
qed

text \<open>
  In the example registry the second entry is the first match: its count goes from 5
  to 6, it is no longer guessed, and its generic argument names are replaced; the entry
  before it and the second match after it stay as they were. On the empty store the
  signature is appended as given.
\<close>

theorem update_or_insert_signature_registry_witness:
  "signatures (db (update_or_insert_signature example_env transfer_signature registry_world)) =
     [entry_one_arg,
      entry_generic\<lparr>sig_args := sig_args transfer_signature, sig_count := 6, sig_guessed := False\<rparr>,
      entry_second]
   \<and> signatures (db (update_or_insert_signature example_env transfer_signature empty_world)) =
     [transfer_signature]"
proof -
  have get: "db_get_signature_semantics example_env (db registry_world)
      (signature_hash transfer_signature) = [entry_one_arg] @ entry_generic # [entry_second]"
    by (simp add: example_env_def registry_world_def transfer_signature_def entry_one_arg_def
        entry_generic_def entry_second_def)
  have pre: "\<forall>x\<in>set [entry_one_arg]. \<not> sig_matches transfer_signature x"
    by (simp add: sig_matches_def transfer_signature_def entry_one_arg_def)
  have m: "sig_matches transfer_signature entry_generic"
    by (simp add: sig_matches_def transfer_signature_def entry_generic_def)
  have upd: "updated_entry transfer_signature entry_generic =
      entry_generic\<lparr>sig_args := sig_args transfer_signature, sig_count := 6, sig_guessed := False\<rparr>"
    by (simp add: updated_entry_def args_look_generic_def overwrite_args_def startswith_def
        transfer_signature_def entry_generic_def)
  have none: "\<forall>x\<in>set (db_get_signature_semantics example_env (db empty_world)
      (signature_hash transfer_signature)). \<not> sig_matches transfer_signature x"
    by (simp add: example_env_def empty_world_def empty_store_def)
  from update_or_insert_signature_registry [of example_env registry_world transfer_signature]
    get pre m
  have 1: "update_or_insert_signature example_env transfer_signature registry_world =
      \<lparr>db = db_insert_signature example_env (db registry_world)
              (updated_entry transfer_signature entry_generic) True,
       trace = trace registry_world @ [DbGetSignatureSemantics (signature_hash transfer_signature),
                 DbInsertSignature (updated_entry transfer_signature entry_generic) True]\<rparr>"
    by blast
  from update_or_insert_signature_registry [of example_env empty_world transfer_signature] none
  have 2: "update_or_insert_signature example_env transfer_signature empty_world =
      \<lparr>db = db_insert_signature example_env (db empty_world) transfer_signature False,
       trace = trace empty_world @ [DbGetSignatureSemantics (signature_hash transfer_signature),
                 DbInsertSignature transfer_signature False]\<rparr>"
    by blast
  have s1: "signatures (db_insert_signature example_env (db registry_world)
        (entry_generic\<lparr>sig_args := sig_args transfer_signature, sig_count := 6,
           sig_guessed := False\<rparr>) True) =
     [entry_one_arg,
      entry_generic\<lparr>sig_args := sig_args transfer_signature, sig_count := 6, sig_guessed := False\<rparr>,
      entry_second]"
    by (simp add: example_env_def registry_world_def sig_matches_def transfer_signature_def
        entry_one_arg_def entry_generic_def entry_second_def)
  have s2: "signatures (db_insert_signature example_env (db empty_world) transfer_signature False)
      = [transfer_signature]"
    by (simp add: example_env_def empty_world_def empty_store_def)
  show ?thesis
    unfolding 1 2 upd using s1 s2 by simp
qed

text \<open>
  With the new entry guessed unless marked otherwise, as the specification words it, the
  property does not hold: the registration of the factory contract, with a
  \<^verbatim>\<open>Signature\<close> class whose \<^verbatim>\<open>guessed\<close> defaults to false, builds the
  signature of \<open>deploy\<close> without naming the flag, finds no entry for it, and inserts it
  with \<open>guessed\<close> false. Nothing in the registration sets the flag.
\<close>

theorem new_entry_is_not_guessed:
  "sig_guessed (new_signature unguessed_env (snd (factory_functions ! 1))) = False
   \<and> db_get_signature_semantics unguessed_env (db empty_world) ''0x9c4ae2d0'' = []
   \<and> signatures (db (update_or_insert_signature unguessed_env
         (new_signature unguessed_env (snd (factory_functions ! 1))) empty_world)) =
       [\<lparr>signature_hash = ''0x9c4ae2d0'', sig_name = ''deploy'',
         sig_args = [\<lparr>arg_name = ''code'', arg_type = ''bytes''\<rparr>,
                     \<lparr>arg_name = ''salt'', arg_type = ''uint256''\<rparr>],
         sig_count = 1, sig_tuple = False, sig_guessed = False\<rparr>]
   \<and> signatures (db (insert_contract_signatures unguessed_env factory_contract empty_world)) =
       [\<lparr>signature_hash = ''0x9c4ae2d0'', sig_name = ''deploy'',
         sig_args = [\<lparr>arg_name = ''code'', arg_type = ''bytes''\<rparr>,
                     \<lparr>arg_name = ''salt'', arg_type = ''uint256''\<rparr>],
         sig_count = 1, sig_tuple = False, sig_guessed = False\<rparr>]"
  by (simp add: unguessed_env_def example_env_def empty_world_def empty_store_def
      factory_contract_def factory_functions_def new_signature_def signature_args_def
      SignatureArg_def startswith_def insert_contract_signatures_def
      update_or_insert_signature_def do_insert_signature_def log_def)

section \<open>Signature registry: which functions are registered, with which arguments\<close>

lemma insert_signatures_loop_fold:
  "insert_signatures_loop env items w =
     fold (\<lambda>v. update_or_insert_signature env (new_signature env v))
       (filter (\<lambda>v. startswith (fn_signature v) ''0x'') (map snd items)) w"
  by (induction items arbitrary: w) auto

lemma signature_args_cases:
  "signature_args v =
     (case fn_inputs v of
        [] \<Rightarrow> []
      | p # ps \<Rightarrow> if parameter_type p = ''tuple'' then map SignatureArg (components p)
                  else map SignatureArg (p # ps))"
  by (simp add: signature_args_def split: list.splits)

lemma update_or_insert_signature_trace:
  "\<exists>e u. trace (update_or_insert_signature env s w) =
     trace w @ [DbGetSignatureSemantics (signature_hash s), DbInsertSignature e u]"
  by (cases "find (sig_matches s) (db_get_signature_semantics env (db w) (signature_hash s))")
     (auto simp add: update_or_insert_signature_def update_or_insert_loop_find
        do_insert_signature_def log_def)

lemma registry_lookups_append:
  "registry_lookups (xs @ ys) = registry_lookups xs @ registry_lookups ys"
  by (induction xs rule: registry_lookups.induct) auto

lemma fold_registration_trace:
  "\<exists>tr. trace (fold (\<lambda>v. update_or_insert_signature env (f v)) vs w) = trace w @ tr
     \<and> registry_lookups tr = map (\<lambda>v. signature_hash (f v)) vs"
proof (induction vs arbitrary: w)
  case Nil
  then show ?case by simp
next
  case (Cons v vs)
  obtain e u where 1: "trace (update_or_insert_signature env (f v) w) =
      trace w @ [DbGetSignatureSemantics (signature_hash (f v)), DbInsertSignature e u]"
    using update_or_insert_signature_trace by blast
  obtain tr where 2:
      "trace (fold (\<lambda>v. update_or_insert_signature env (f v)) vs
         (update_or_insert_signature env (f v) w)) =
       trace (update_or_insert_signature env (f v) w) @ tr"
      "registry_lookups tr = map (\<lambda>v. signature_hash (f v)) vs"
    using Cons.IH by blast
  show ?case
    by (rule exI [of _ "[DbGetSignatureSemantics (signature_hash (f v)), DbInsertSignature e u] @ tr"])
       (simp add: 1 2)
qed

text \<open>
  C8. The registration of a contract is the registration, in the order of the function
  map, of the functions whose signature starts with \<open>0x\<close>, the others being skipped.
  The signature built for a function has its selector and its name; its arguments are
  the name and type of each component of the first input when the type of the first
  input is \<open>tuple\<close>, and the name and type of each input otherwise. The registry is
  looked up for the selectors of these functions, in this order, and for nothing else.
\<close>

theorem insert_contract_signatures_scan:
  "insert_contract_signatures env contract_semantics w =
     fold (\<lambda>v. update_or_insert_signature env
                 \<lparr>signature_hash = fn_signature v, sig_name = fn_name v,
                  sig_args =
                    (case fn_inputs v of
                       [] \<Rightarrow> []
                     | p # ps \<Rightarrow>
                         if parameter_type p = ''tuple''
                         then map SignatureArg (components p)
                         else map SignatureArg (p # ps)),
                  sig_count = default_count (signature_defaults env),
                  sig_tuple = default_tuple (signature_defaults env),
                  sig_guessed = default_guessed (signature_defaults env)\<rparr>)
       (filter (\<lambda>v. startswith (fn_signature v) ''0x'') (map snd (cs_functions contract_semantics)))
       w
   \<and> registry_lookups (calls_between w (insert_contract_signatures env contract_semantics w)) =
       map fn_signature
         (filter (\<lambda>v. startswith (fn_signature v) ''0x'') (map snd (cs_functions contract_semantics)))"
proof
  have n: "new_signature env = (\<lambda>v.
                 \<lparr>signature_hash = fn_signature v, sig_name = fn_name v,
                  sig_args =
                    (case fn_inputs v of
                       [] \<Rightarrow> []
                     | p # ps \<Rightarrow>
                         if parameter_type p = ''tuple''
                         then map SignatureArg (components p)
                         else map SignatureArg (p # ps)),
                  sig_count = default_count (signature_defaults env),
                  sig_tuple = default_tuple (signature_defaults env),
                  sig_guessed = default_guessed (signature_defaults env)\<rparr>)"
    by (rule ext) (simp add: new_signature_def signature_args_cases)
  show "insert_contract_signatures env contract_semantics w =
     fold (\<lambda>v. update_or_insert_signature env
                 \<lparr>signature_hash = fn_signature v, sig_name = fn_name v,
                  sig_args =
                    (case fn_inputs v of
                       [] \<Rightarrow> []
                     | p # ps \<Rightarrow>
                         if parameter_type p = ''tuple''
                         then map SignatureArg (components p)
                         else map SignatureArg (p # ps)),
                  sig_count = default_count (signature_defaults env),
                  sig_tuple = default_tuple (signature_defaults env),
                  sig_guessed = default_guessed (signature_defaults env)\<rparr>)
       (filter (\<lambda>v. startswith (fn_signature v) ''0x'') (map snd (cs_functions contract_semantics)))
       w"
    unfolding insert_contract_signatures_def insert_signatures_loop_fold n ..
  obtain tr where tr:
    "trace (fold (\<lambda>v. update_or_insert_signature env (new_signature env v))
        (filter (\<lambda>v. startswith (fn_signature v) ''0x'') (map snd (cs_functions contract_semantics))) w)
      = trace w @ tr"
    "registry_lookups tr = map (\<lambda>v. signature_hash (new_signature env v))
        (filter (\<lambda>v. startswith (fn_signature v) ''0x'') (map snd (cs_functions contract_semantics)))"
    using fold_registration_trace [of env "new_signature env"] by blast
  show "registry_lookups (calls_between w (insert_contract_signatures env contract_semantics w)) =
       map fn_signature
         (filter (\<lambda>v. startswith (fn_signature v) ''0x'') (map snd (cs_functions contract_semantics)))"
    unfolding insert_contract_signatures_def insert_signatures_loop_fold calls_between_def tr(1)
    by (simp add: tr(2) new_signature_def)
qed

text \<open>
  On the factory contract of the examples, the function keyed \<open>constructor\<close> is skipped,
  and \<open>deploy\<close>, whose one input is a tuple, is registered with the two components of
  the tuple as arguments.
\<close>

theorem insert_contract_signatures_scan_witness:
  "signatures (db (insert_contract_signatures example_env factory_contract empty_world)) =
     [\<lparr>signature_hash = ''0x9c4ae2d0'', sig_name = ''deploy'',
       sig_args = [\<lparr>arg_name = ''code'', arg_type = ''bytes''\<rparr>,
                   \<lparr>arg_name = ''salt'', arg_type = ''uint256''\<rparr>],
       sig_count = 1, sig_tuple = False, sig_guessed = True\<rparr>]"
  using insert_contract_signatures_scan [of example_env factory_contract empty_world]
  by (simp add: factory_contract_def factory_functions_def startswith_def
      update_or_insert_signature_def do_insert_signature_def log_def SignatureArg_def
      example_env_def empty_world_def empty_store_def)

section \<open>Standard classifier: all or nothing, ERC20 first\<close>

lemma has_key_del_key: "has_key (del_key k d) k' = (has_key d k' \<and> k' \<noteq> k)"
  by (auto simp: has_key_def del_key_def)

lemma all_in_iff: "all_in req d = (\<forall>k\<in>set req. has_key d k)"
  by (simp add: all_in_def list_all_iff)

lemma all_in_del_key: "k \<in> set req \<Longrightarrow> \<not> all_in req (del_key k d)"
  by (auto simp: all_in_iff has_key_del_key)

lemma classified_eq:
  "classified env address name events functions w =
     (if py_not address then None
      else if all_in (ERC20_EVENTS env) events \<and> all_in (ERC20_FUNCTIONS env) functions
        then Some ''ERC20''
      else if all_in (ERC721_EVENTS env) events \<and> all_in (ERC721_FUNCTIONS env) functions
        then Some ''ERC721''
      else None)"
  by (simp add: classified_def decode_standard_semantics_def)

text \<open>
  C3. The classifier answers ERC20 exactly when the address is not empty and every
  required ERC20 event and function is a key of the decoded maps; it answers ERC721
  exactly when, in addition to a non-empty address, the ERC20 test fails and every
  required ERC721 event and function is present; there is no other answer but none.
  Deleting one required event or function from the maps makes the answer differ from
  that standard.
\<close>

theorem decode_standard_all_or_nothing:
  "(classified env address name events functions w = Some ''ERC20'' \<longleftrightarrow>
      \<not> py_not address \<and> (\<forall>e\<in>set (ERC20_EVENTS env). has_key events e)
        \<and> (\<forall>f\<in>set (ERC20_FUNCTIONS env). has_key functions f))
   \<and> (classified env address name events functions w = Some ''ERC721'' \<longleftrightarrow>
      \<not> py_not address
        \<and> \<not> ((\<forall>e\<in>set (ERC20_EVENTS env). has_key events e)
             \<and> (\<forall>f\<in>set (ERC20_FUNCTIONS env). has_key functions f))
        \<and> (\<forall>e\<in>set (ERC721_EVENTS env). has_key events e)
        \<and> (\<forall>f\<in>set (ERC721_FUNCTIONS env). has_key functions f))
   \<and> (classified env address name events functions w \<in> {None, Some ''ERC20'', Some ''ERC721''})
   \<and> (\<forall>e\<in>set (ERC20_EVENTS env).
         classified env address name (del_key e events) functions w \<noteq> Some ''ERC20'')
   \<and> (\<forall>f\<in>set (ERC20_FUNCTIONS env).
         classified env address name events (del_key f functions) w \<noteq> Some ''ERC20'')
   \<and> (\<forall>e\<in>set (ERC721_EVENTS env).
         classified env address name (del_key e events) functions w \<noteq> Some ''ERC721'')
   \<and> (\<forall>f\<in>set (ERC721_FUNCTIONS env).
         classified env address name events (del_key f functions) w \<noteq> Some ''ERC721'')"
proof -
  have del: "\<And>k req d. k \<in> set req
      \<Longrightarrow> \<not> (\<forall>x\<in>set req. has_key (del_key k (d :: (string \<times> 'v) list)) x)"
    using all_in_del_key by (simp add: all_in_iff)
  show ?thesis
    unfolding classified_eq all_in_iff
    by (intro conjI ballI) (auto simp: del)
qed

theorem decode_standard_all_or_nothing_witness:
  "classified example_env (Some ''0xc1'') ''Token'' example_events example_functions empty_world
     = Some ''ERC20''
   \<and> classified example_env (Some ''0xc1'') ''Token'' (del_key ''0x8c5be1e5'' example_events)
       example_functions empty_world \<noteq> Some ''ERC20''
   \<and> classified example_env (Some ''0xc1'') ''Token'' example_events
       (del_key ''0xa9059cbb'' example_functions) empty_world \<noteq> Some ''ERC20''"
  using decode_standard_all_or_nothing [of example_env "Some ''0xc1''" "''Token''"
      example_events example_functions empty_world]
  by (simp add: example_env_def example_events_def example_functions_def has_key_def py_not_def)

section \<open>The calls that the tiers make\<close>

lemma calls_onlyI: "trace w' = trace w @ tr \<Longrightarrow> list_all P tr \<Longrightarrow> calls_only P w w'"
  by (simp add: calls_only_def calls_between_def)

lemma calls_onlyD: "calls_only P w w' \<Longrightarrow> \<exists>tr. trace w' = trace w @ tr \<and> list_all P tr"
  unfolding calls_only_def calls_between_def
  by (metis append_take_drop_id)

lemma calls_only_refl [simp]: "calls_only P w w"
  by (simp add: calls_only_def calls_between_def)

lemma calls_only_trans:
  "calls_only P w w' \<Longrightarrow> calls_only P w' w'' \<Longrightarrow> calls_only P w w''"
proof -
  assume a: "calls_only P w w'" and b: "calls_only P w' w''"
  from calls_onlyD [OF a] obtain t1 where 1: "trace w' = trace w @ t1" "list_all P t1" by blast
  from calls_onlyD [OF b] obtain t2 where 2: "trace w'' = trace w' @ t2" "list_all P t2" by blast
  show ?thesis
    by (rule calls_onlyI [of _ _ "t1 @ t2"]) (simp_all add: 1 2)
qed

lemma calls_only_log: "P c \<Longrightarrow> calls_only P w (log c w)"
  by (rule calls_onlyI [of _ _ "[c]"]) (simp_all add: log_def)

lemma calls_only_log_trans: "calls_only P w w' \<Longrightarrow> P c \<Longrightarrow> calls_only P w (log c w')"
  by (erule calls_only_trans) (rule calls_only_log)

lemma read_stored_semantics_calls:
  "calls_only (\<lambda>c. \<not> is_amend c) w (fst (read_stored_semantics env address chain_id w))"
  by (auto simp: read_stored_semantics_def Let_def split: option.splits sum.splits
      intro!: calls_only_log calls_only_log_trans)

lemma decode_standard_semantics_calls:
  "calls_only (\<lambda>c. \<not> is_amend c) w (fst (decode_standard_semantics env address name events functions w))"
  by (auto simp: decode_standard_semantics_def intro!: calls_only_log)

lemma resolve_remote_calls:
  "calls_only (\<lambda>c. \<not> is_amend c) w (fst (resolve_remote env chain_id address w))"
proof -
  let ?P = "\<lambda>c. \<not> is_amend c"
  have l: "\<And>c w'. calls_only ?P w w' \<Longrightarrow> \<not> is_amend c \<Longrightarrow> calls_only ?P w (log c w')"
    by (rule calls_only_log_trans)
  show ?thesis
  proof (cases "get_code_hash env address chain_id = ZERO_HASH")
    case True
    then show ?thesis
      by (simp add: resolve_remote_def l)
  next
    case nz: False
    obtain raw decoded where abi: "get_contract_abi env chain_id address = (raw, decoded)"
      by (cases "get_contract_abi env chain_id address")
    show ?thesis
    proof (cases "decoded \<and> raw \<noteq> None")
      case False
      with nz abi show ?thesis
        by (auto simp: resolve_remote_def Let_def l)
    next
      case True
      then obtain rs where raw: "raw = Some rs" and dec: decoded by auto
      obtain ev fs where de: "decode_events_and_functions env (rs_abi rs) = (ev, fs)"
        by (cases "decode_events_and_functions env (rs_abi rs)")
      let ?w3 = "log (DecodeEventsAndFunctions (rs_abi rs))
                   (log (GetContractAbi chain_id address) (log (GetCodeHash address chain_id) w))"
      obtain w4 std ss where ds:
        "decode_standard_semantics env (Some address) (rs_name rs) ev fs ?w3 = (w4, std, ss)"
        by (cases "decode_standard_semantics env (Some address) (rs_name rs) ev fs ?w3") auto
      have 3: "calls_only ?P w ?w3" by (simp add: l)
      from decode_standard_semantics_calls [of ?w3 env "Some address" "rs_name rs" ev fs] ds
      have "calls_only ?P ?w3 w4" by simp
      with 3 have 4: "calls_only ?P w w4" by (rule calls_only_trans)
      from nz abi raw dec de ds 4 show ?thesis
        by (simp add: resolve_remote_def l)
    qed
  qed
qed

lemma update_or_insert_signature_calls:
  "calls_only (\<lambda>c. \<not> is_amend c) w (update_or_insert_signature env s w)"
  using update_or_insert_signature_trace [of env s w]
  by (auto intro!: calls_onlyI)

lemma insert_signatures_loop_calls:
  "calls_only (\<lambda>c. \<not> is_amend c) w (insert_signatures_loop env items w)"
proof (induction items arbitrary: w)
  case Nil
  show ?case by simp
next
  case (Cons kv items)
  obtain k v where kv: "kv = (k, v)" by (cases kv)
  show ?case
    unfolding kv using Cons.IH update_or_insert_signature_calls calls_only_trans
    by (auto simp del: split_paired_All) blast
qed

lemma update_semantics_calls:
  "calls_only (\<lambda>c. \<not> is_amend c) w (update_semantics env s w)"
proof (cases s)
  case None
  then show ?thesis by (simp add: update_semantics_def)
next
  case (Some a)
  obtain d1 cid where ic: "db_insert_contract env (db w) (as_contract a) True = (d1, cid)"
    by (cases "db_insert_contract env (db w) (as_contract a) True")
  let ?w2 = "\<lparr>db = db_insert_address env d1 (address_dict a) True,
              trace = trace w @ [DbInsertContract (as_contract a) True,
                                 DbInsertAddress (address_dict a) True]\<rparr>"
  have 1: "calls_only (\<lambda>c. \<not> is_amend c) w ?w2"
    by (rule calls_onlyI [of _ _ "[DbInsertContract (as_contract a) True,
                                 DbInsertAddress (address_dict a) True]"]) simp_all
  have 2: "calls_only (\<lambda>c. \<not> is_amend c) ?w2 (insert_contract_signatures env (as_contract a) ?w2)"
    unfolding insert_contract_signatures_def by (rule insert_signatures_loop_calls)
  show ?thesis
    using Some ic 1 calls_only_trans [OF 1 2]
    by (simp add: update_semantics_def Let_def)
qed

lemma resolve_tiers_calls:
  "calls_only (\<lambda>c. \<not> is_amend c) w (fst (resolve_tiers env chain_id address w))"
proof -
  note rs = read_stored_semantics_calls [of w env address chain_id]
  show ?thesis
  proof (cases "read_stored_semantics env address chain_id w")
    case (Pair w1 x)
    with rs have 1: "calls_only (\<lambda>c. \<not> is_amend c) w w1" by simp
    show ?thesis
    proof (cases x)
      case (Inl e)
      with Pair 1 show ?thesis by (simp add: resolve_tiers_def)
    next
      case (Inr stored)
      show ?thesis
      proof (cases stored)
        case (Some s)
        with Pair Inr 1 show ?thesis by (simp add: resolve_tiers_def)
      next
        case None
        obtain w2 s where rr: "resolve_remote env chain_id (the address) w1 = (w2, s)"
          by (cases "resolve_remote env chain_id (the address) w1")
        with resolve_remote_calls [of w1 env chain_id "the address"]
        have 2: "calls_only (\<lambda>c. \<not> is_amend c) w1 w2" by simp
        have 3: "calls_only (\<lambda>c. \<not> is_amend c) w2 (update_semantics env (Some s) w2)"
          by (rule update_semantics_calls)
        from Pair Inr None rr calls_only_trans [OF 1 calls_only_trans [OF 2 3]]
        show ?thesis by (simp add: resolve_tiers_def)
      qed
    qed
  qed
qed

section \<open>The example run\<close>

lemmas example_simps =
  get_semantics_cases init_def resolve_tiers_def read_stored_semantics_def resolve_remote_def
  update_semantics_def insert_contract_signatures_def update_or_insert_signature_def
  do_insert_signature_def decode_standard_semantics_def log_def py_not_def
  ContractSemantics_default_def address_dict_def example_env_def empty_store_def
  lru_store_def lru_hit_def has_key_def del_key_def maxsize_def all_in_def
  encode_contract_def

lemma after_eoa_eq:
  "after_eoa =
     \<lparr>world =
        \<lparr>db = \<lparr>addresses =
                 [((''1'', ''0xe0''),
                   \<lparr>ra_chain_id = ''1'', ra_address = ''0xe0'', ra_name = Some ''alice.eth'',
                    ra_is_contract = False, ra_contract = ZERO_HASH, ra_standard = None,
                    ra_erc20 = None\<rparr>)],
               contracts =
                 [(ZERO_HASH,
                   \<lparr>rc_code_hash = ZERO_HASH, rc_name = ''EOA'', rc_events = [],
                    rc_functions = [], rc_transformations = []\<rparr>)],
               signatures = []\<rparr>,
         trace =
           [DbGetAddressSemantics ''1'' ''0xe0'', GetCodeHash ''0xe0'' ''1'', EnsName ''1'' ''0xe0'',
            DbInsertContract (ContractSemantics_default ZERO_HASH ''EOA'') True,
            DbInsertAddress
              \<lparr>ra_chain_id = ''1'', ra_address = ''0xe0'', ra_name = Some ''alice.eth'',
               ra_is_contract = False, ra_contract = ZERO_HASH, ra_standard = None,
               ra_erc20 = None\<rparr> True,
            AmendContractSemantics (ContractSemantics_default ZERO_HASH ''EOA'')]\<rparr>,
      records = None,
      heap =
        [\<lparr>as_chain_id = ''1'', as_address = ''0xe0'', as_name = ''alice.eth'',
          as_is_contract = False, as_contract = ContractSemantics_default ZERO_HASH ''EOA'',
          as_standard = None, as_erc20 = None\<rparr>],
      get_semantics_cache = [((''1'', Some ''0xe0''), Some 0)],
      get_event_abi_cache = [], get_transformations_cache = [],
      get_anonymous_event_abi_cache = [], get_function_abi_cache = [],
      get_constructor_abi_cache = [], check_is_contract_cache = [], get_standard_cache = []\<rparr>"
  unfolding after_eoa_def by (simp add: example_simps)

section \<open>Empty address: no result, and no tier attempted\<close>

lemma lru_cached_empty_address:
  assumes ok: "empty_address_ok address_of d (get_cache st)"
    and e: "py_not (address_of key)"
    and body: "f st = (st, Inr d)"
  shows "\<exists>c. lru_cached get_cache set_cache key f st = (set_cache c st, Inr d)"
proof (cases "map_of (get_cache st) key")
  case None
  with body show ?thesis by (auto simp: lru_cached_def)
next
  case (Some v)
  with empty_address_ok_lookup [OF ok Some e] show ?thesis
    by (auto simp: lru_cached_def)
qed

lemma get_semantics_empty_address:
  assumes ok: "semantics_cache_ok (heap st) (get_semantics_cache st)" and e: "py_not address"
  shows "\<exists>c. get_semantics env chain_id address st = (st\<lparr>get_semantics_cache := c\<rparr>, Inr None)"
proof (cases "map_of (get_semantics_cache st) (chain_id, address)")
  case None
  with e show ?thesis by (auto simp: get_semantics_cases)
next
  case (Some v)
  with semantics_cache_ok_lookup [OF ok Some] e show ?thesis
    by (auto simp: get_semantics_cases)
qed

text \<open>
  C6. In every reachable state, for an address that is \<^verbatim>\<open>None\<close> or the empty string,
  \<^verbatim>\<open>get_semantics\<close> and the accessors return (they do not raise) their no-result
  value: \<open>None\<close>, the empty string for the label, \<open>False\<close> for the contract flag
  and the tuple of four \<open>None\<close> for the token data. The world is the same after the
  call: no collaborator was called and the store was not touched.
\<close>

theorem empty_address_no_result:
  assumes r: "reachable env st" and e: "py_not address"
  shows "(snd (get_semantics env chain_id address st) = Inr None
          \<and> world (fst (get_semantics env chain_id address st)) = world st)
       \<and> (snd (get_event_abi env chain_id address signature st) = Inr None
          \<and> world (fst (get_event_abi env chain_id address signature st)) = world st)
       \<and> (snd (get_transformations env chain_id address signature st) = Inr None
          \<and> world (fst (get_transformations env chain_id address signature st)) = world st)
       \<and> (snd (get_anonymous_event_abi env chain_id address st) = Inr None
          \<and> world (fst (get_anonymous_event_abi env chain_id address st)) = world st)
       \<and> (snd (get_function_abi env chain_id address signature st) = Inr None
          \<and> world (fst (get_function_abi env chain_id address signature st)) = world st)
       \<and> (snd (get_constructor_abi env chain_id address st) = Inr None
          \<and> world (fst (get_constructor_abi env chain_id address st)) = world st)
       \<and> (snd (get_address_label env chain_id address proxies st) = Inr []
          \<and> world (fst (get_address_label env chain_id address proxies st)) = world st)
       \<and> (snd (check_is_contract env chain_id address st) = Inr False
          \<and> world (fst (check_is_contract env chain_id address st)) = world st)
       \<and> (snd (get_standard env chain_id address st) = Inr None
          \<and> world (fst (get_standard env chain_id address st)) = world st)
       \<and> (snd (get_token_data env chain_id address proxies st) = Inr (None, None, None, None)
          \<and> world (fst (get_token_data env chain_id address proxies st)) = world st)"
proof -
  have ok: "caches_ok st" using r by (rule reachable_caches_ok)
  have 1: "snd (get_semantics env chain_id address st) = Inr None
          \<and> world (fst (get_semantics env chain_id address st)) = world st"
    using get_semantics_empty_address [of st address env chain_id] ok e
    by (auto simp: caches_ok_def)
  have 2: "snd (get_event_abi env chain_id address signature st) = Inr None
          \<and> world (fst (get_event_abi env chain_id address signature st)) = world st"
    using lru_cached_empty_address [of "\<lambda>k. fst (snd k)" None get_event_abi_cache st
        "(chain_id, address, signature)" "get_event_abi_body env chain_id address signature"
        "\<lambda>c st. st\<lparr>get_event_abi_cache := c\<rparr>"] ok e
    by (auto simp: caches_ok_def get_event_abi_def get_event_abi_body_def)
  have 3: "snd (get_transformations env chain_id address signature st) = Inr None
          \<and> world (fst (get_transformations env chain_id address signature st)) = world st"
    using lru_cached_empty_address [of "\<lambda>k. fst (snd k)" None get_transformations_cache st
        "(chain_id, address, signature)" "get_transformations_body env chain_id address signature"
        "\<lambda>c st. st\<lparr>get_transformations_cache := c\<rparr>"] ok e
    by (auto simp: caches_ok_def get_transformations_def get_transformations_body_def)
  have 4: "snd (get_anonymous_event_abi env chain_id address st) = Inr None
          \<and> world (fst (get_anonymous_event_abi env chain_id address st)) = world st"
    using lru_cached_empty_address [of snd None get_anonymous_event_abi_cache st
        "(chain_id, address)" "get_anonymous_event_abi_body env chain_id address"
        "\<lambda>c st. st\<lparr>get_anonymous_event_abi_cache := c\<rparr>"] ok e
    by (auto simp: caches_ok_def get_anonymous_event_abi_def get_anonymous_event_abi_body_def)
  have 5: "snd (get_function_abi env chain_id address signature st) = Inr None
          \<and> world (fst (get_function_abi env chain_id address signature st)) = world st"
    using lru_cached_empty_address [of "\<lambda>k. fst (snd k)" None get_function_abi_cache st
        "(chain_id, address, signature)" "get_function_abi_body env chain_id address signature"
        "\<lambda>c st. st\<lparr>get_function_abi_cache := c\<rparr>"] ok e
    by (auto simp: caches_ok_def get_function_abi_def get_function_abi_body_def)
  have 6: "snd (get_constructor_abi env chain_id address st) = Inr None
          \<and> world (fst (get_constructor_abi env chain_id address st)) = world st"
    using lru_cached_empty_address [of snd None get_constructor_abi_cache st
        "(chain_id, address)" "get_constructor_abi_body env chain_id address"
        "\<lambda>c st. st\<lparr>get_constructor_abi_cache := c\<rparr>"] ok e
    by (auto simp: caches_ok_def get_constructor_abi_def get_constructor_abi_body_def)
  have 7: "snd (get_address_label env chain_id address proxies st) = Inr []
          \<and> world (fst (get_address_label env chain_id address proxies st)) = world st"
    using e by (simp add: get_address_label_def)
  have 8: "snd (check_is_contract env chain_id address st) = Inr False
          \<and> world (fst (check_is_contract env chain_id address st)) = world st"
    using lru_cached_empty_address [of snd False check_is_contract_cache st
        "(chain_id, address)" "check_is_contract_body env chain_id address"
        "\<lambda>c st. st\<lparr>check_is_contract_cache := c\<rparr>"] ok e
    by (auto simp: caches_ok_def check_is_contract_def check_is_contract_body_def)
  have 9: "snd (get_standard env chain_id address st) = Inr None
          \<and> world (fst (get_standard env chain_id address st)) = world st"
    using lru_cached_empty_address [of snd None get_standard_cache st
        "(chain_id, address)" "get_standard_body env chain_id address"
        "\<lambda>c st. st\<lparr>get_standard_cache := c\<rparr>"] ok e
    by (auto simp: caches_ok_def get_standard_def get_standard_body_def)
  have 10: "snd (get_token_data env chain_id address proxies st) = Inr (None, None, None, None)
          \<and> world (fst (get_token_data env chain_id address proxies st)) = world st"
    using e by (simp add: get_token_data_def)
  from 1 2 3 4 5 6 7 8 9 10 show ?thesis by blast
qed

theorem empty_address_no_result_witness:
  "snd (get_semantics example_env ''1'' None after_eoa) = Inr None
   \<and> world (fst (get_semantics example_env ''1'' None after_eoa)) = world after_eoa
   \<and> snd (get_constructor_abi example_env ''1'' (Some []) after_eoa) = Inr None
   \<and> snd (check_is_contract example_env ''1'' (Some []) after_eoa) = Inr False
   \<and> snd (get_address_label example_env ''1'' (Some []) None after_eoa) = Inr []
   \<and> snd (get_token_data example_env ''1'' None None after_eoa) = Inr (None, None, None, None)"
proof -
  have r: "reachable example_env after_eoa"
    unfolding after_eoa_def by (rule reachable.r_get_semantics) (rule reachable.r_init)
  have n: "py_not None" and e: "py_not (Some [])"
    by (simp_all add: py_not_def)
  from empty_address_no_result [OF r n, of "''1''" "[]" None]
    empty_address_no_result [OF r e, of "''1''" "[]" None]
  show ?thesis by blast
qed

section \<open>Standard classifier: the default token descriptor\<close>

text \<open>
  C7. When the address is not empty, the maps hold every required ERC20 event and
  function, and the read of the live token descriptor fails, the classifier returns the
  standard ERC20 with the descriptor whose name and symbol are the declared name and
  whose decimals are 18. The result is a value: the failure is caught in the function.
  The one call made is the failed read.
\<close>

theorem erc20_default_descriptor:
  assumes "\<not> py_not address"
    and "all_in (ERC20_EVENTS env) events" and "all_in (ERC20_FUNCTIONS env) functions"
    and "get_erc20_token env (the address) name functions = None"
  shows "decode_standard_semantics env address name events functions w =
           (log (GetErc20Token (the address) name) w,
            Some ''ERC20'',
            Some \<lparr>erc20_name = name, erc20_symbol = name, erc20_decimals = 18\<rparr>)"
  using assms by (simp add: decode_standard_semantics_def)

theorem erc20_default_descriptor_witness:
  "decode_standard_semantics example_env (Some ''0xc1'') ''Token'' example_events
       example_functions empty_world =
     (log (GetErc20Token ''0xc1'' ''Token'') empty_world,
      Some ''ERC20'',
      Some \<lparr>erc20_name = ''Token'', erc20_symbol = ''Token'', erc20_decimals = 18\<rparr>)"
proof -
  have a: "\<not> py_not (Some ''0xc1'')"
    by (simp add: py_not_def)
  have e: "all_in (ERC20_EVENTS example_env) example_events"
    by (simp add: all_in_def has_key_def example_env_def example_events_def)
  have f: "all_in (ERC20_FUNCTIONS example_env) example_functions"
    by (simp add: all_in_def has_key_def example_env_def example_functions_def)
  have g: "get_erc20_token example_env (the (Some ''0xc1'')) ''Token'' example_functions = None"
    by (simp add: example_env_def)
  show ?thesis
    using erc20_default_descriptor [OF a e f g, of empty_world] by simp
qed

section \<open>The Amendment Layer: applied when the body runs\<close>

lemma calls_between_append: "trace w' = trace w @ tr \<Longrightarrow> calls_between w w' = tr"
  by (simp add: calls_between_def)

lemma filter_none: "list_all (\<lambda>c. \<not> P c) xs \<Longrightarrow> filter P xs = []"
  by (induction xs) auto

text \<open>
  C1, as the code has it. For a non-empty address that is not in the cache of
  \<^verbatim>\<open>get_semantics\<close>, when the tiers give a record \<open>s\<close> (read from the store or newly
  resolved), the call returns a new object that is \<open>s\<close> with the transform of the
  Amendment Layer applied to its contract semantics; the transform is the last
  collaborator call of the resolution and the only call of it. For an address that is in
  the cache, the call returns the cached reference, the object and the world are as
  before: the transform is not called again.
\<close>

theorem amend_on_resolution:
  assumes "\<not> py_not address"
  shows "(\<forall>w s. map_of (get_semantics_cache st) (chain_id, address) = None
              \<and> resolve_tiers env chain_id address (world st) = (w, Inr s)
          \<longrightarrow> snd (get_semantics env chain_id address st) = Inr (Some (length (heap st)))
            \<and> deref (heap (fst (get_semantics env chain_id address st))) (length (heap st)) =
                Some (s\<lparr>as_contract := amend_contract_semantics env (as_contract s)\<rparr>)
            \<and> trace (world (fst (get_semantics env chain_id address st))) =
                trace w @ [AmendContractSemantics (as_contract s)]
            \<and> filter is_amend
                (calls_between (world st) (world (fst (get_semantics env chain_id address st)))) =
                [AmendContractSemantics (as_contract s)])
       \<and> (\<forall>v. map_of (get_semantics_cache st) (chain_id, address) = Some v
          \<longrightarrow> snd (get_semantics env chain_id address st) = Inr v
            \<and> world (fst (get_semantics env chain_id address st)) = world st
            \<and> heap (fst (get_semantics env chain_id address st)) = heap st)"
proof (intro conjI allI impI)
  fix w s
  assume h: "map_of (get_semantics_cache st) (chain_id, address) = None
              \<and> resolve_tiers env chain_id address (world st) = (w, Inr s)"
  let ?st' = "fst (get_semantics env chain_id address st)"
  from h assms show "snd (get_semantics env chain_id address st) = Inr (Some (length (heap st)))"
    by (simp add: get_semantics_cases)
  from h assms show "deref (heap ?st') (length (heap st)) =
      Some (s\<lparr>as_contract := amend_contract_semantics env (as_contract s)\<rparr>)"
    by (simp add: get_semantics_cases deref_def)
  from h assms show t: "trace (world ?st') = trace w @ [AmendContractSemantics (as_contract s)]"
    by (simp add: get_semantics_cases log_def)
  from resolve_tiers_calls [of "world st" env chain_id address] h
  have "calls_only (\<lambda>c. \<not> is_amend c) (world st) w" by simp
  then obtain tr where tr: "trace w = trace (world st) @ tr" "list_all (\<lambda>c. \<not> is_amend c) tr"
    using calls_onlyD by blast
  have "calls_between (world st) (world ?st') = tr @ [AmendContractSemantics (as_contract s)]"
    by (rule calls_between_append) (simp add: t tr)
  then show "filter is_amend (calls_between (world st) (world ?st')) =
      [AmendContractSemantics (as_contract s)]"
    by (simp add: filter_none [OF tr(2)])
next
  fix v
  assume h: "map_of (get_semantics_cache st) (chain_id, address) = Some v"
  then show "snd (get_semantics env chain_id address st) = Inr v"
    "world (fst (get_semantics env chain_id address st)) = world st"
    "heap (fst (get_semantics env chain_id address st)) = heap st"
    by (simp_all add: get_semantics_cases)
qed

text \<open>
  The first resolution of the externally owned account applies the transform, once and
  last; the second call for the same key finds the key in the cache.
\<close>

theorem amend_on_resolution_witness:
  "filter is_amend (calls_between (world (init empty_store)) (world after_eoa)) =
     [AmendContractSemantics (ContractSemantics_default ZERO_HASH ''EOA'')]
   \<and> snd (get_semantics example_env ''1'' (Some ''0xe0'') after_eoa) = Inr (Some 0)
   \<and> heap (fst (get_semantics example_env ''1'' (Some ''0xe0'') after_eoa)) = heap after_eoa"
proof -
  have a: "\<not> py_not (Some ''0xe0'')" by (simp add: py_not_def)
  have m: "map_of (get_semantics_cache (init empty_store)) (''1'', Some ''0xe0'') = None"
    by (simp add: init_def)
  obtain w s where rt:
    "resolve_tiers example_env ''1'' (Some ''0xe0'') (world (init empty_store)) = (w, Inr s)"
    "as_contract s = ContractSemantics_default ZERO_HASH ''EOA''"
    by (simp add: example_simps)
  have hit: "map_of (get_semantics_cache after_eoa) (''1'', Some ''0xe0'') = Some (Some 0)"
    by (simp add: after_eoa_eq)
  from amend_on_resolution [OF a, of "init empty_store" "''1''" example_env] m rt
  have 1: "filter is_amend (calls_between (world (init empty_store)) (world after_eoa)) =
     [AmendContractSemantics (ContractSemantics_default ZERO_HASH ''EOA'')]"
    unfolding after_eoa_def by metis
  from amend_on_resolution [OF a, of after_eoa "''1''" example_env] hit
  have 2: "snd (get_semantics example_env ''1'' (Some ''0xe0'') after_eoa) = Inr (Some 0)
     \<and> heap (fst (get_semantics example_env ''1'' (Some ''0xe0'') after_eoa)) = heap after_eoa"
    by blast
  from 1 2 show ?thesis by blast
qed

text \<open>
  With calls answered from the cache included, as the specification words it, the
  property does not hold: the second call for the
  externally owned account returns the record of the first call and makes no call to any
  collaborator, so the transform is not applied during it.
\<close>

theorem cached_call_does_not_amend:
  "snd (get_semantics example_env ''1'' (Some ''0xe0'') after_eoa) = Inr (Some 0)
   \<and> calls_between (world after_eoa)
       (world (fst (get_semantics example_env ''1'' (Some ''0xe0'') after_eoa))) = []
   \<and> \<not> list_ex is_amend
       (calls_between (world after_eoa)
          (world (fst (get_semantics example_env ''1'' (Some ''0xe0'') after_eoa))))"
  by (simp add: after_eoa_eq get_semantics_cases calls_between_def)

section \<open>Recording\<close>

lemma get_semantics_records_independent:
  "get_semantics env chain_id address (st\<lparr>records := x\<rparr>) =
     (case get_semantics env chain_id address st of
        (st', r) \<Rightarrow>
          (st'\<lparr>records :=
                 (if py_not address \<or> map_of (get_semantics_cache st) (chain_id, address) \<noteq> None
                  then x
                  else case r of
                         Inl e \<Rightarrow> x
                       | Inr v \<Rightarrow> (case x of None \<Rightarrow> None | Some rs \<Rightarrow> Some (rs @ [the address])))\<rparr>,
           r))"
  by (auto simp: get_semantics_cases split: option.splits prod.splits sum.splits)

text \<open>
  C9, as the code has it. When the body of \<^verbatim>\<open>get_semantics\<close> runs for a non-empty
  address (the key is not in the cache) and returns a record, the address is appended to
  the log when recording is on, and the log stays off when recording is off; when it
  raises, the log is unchanged. A call with an empty address, and a call answered from the
  cache, leave the log as it is. Recording is off in a new repository object; \<^verbatim>\<open>record\<close>
  starts an empty log; \<^verbatim>\<open>end_record\<close> returns the log and switches recording off. The
  result of \<^verbatim>\<open>get_semantics\<close>, and the state after it but for the log, do not depend on
  the log.
\<close>

theorem recording_on_resolution:
  "(\<not> py_not address \<and> map_of (get_semantics_cache st) (chain_id, address) = None \<longrightarrow>
      records (fst (get_semantics env chain_id address st)) =
        (case snd (get_semantics env chain_id address st) of
           Inl e \<Rightarrow> records st
         | Inr r \<Rightarrow> (case records st of None \<Rightarrow> None | Some rs \<Rightarrow> Some (rs @ [the address]))))
   \<and> (py_not address \<or> map_of (get_semantics_cache st) (chain_id, address) \<noteq> None \<longrightarrow>
      records (fst (get_semantics env chain_id address st)) = records st)
   \<and> records (init d) = None
   \<and> records (record_start st) = Some []
   \<and> end_record st = (st\<lparr>records := None\<rparr>, records st)
   \<and> snd (get_semantics env chain_id address (st\<lparr>records := x\<rparr>)) =
       snd (get_semantics env chain_id address st)
   \<and> (fst (get_semantics env chain_id address (st\<lparr>records := x\<rparr>)))\<lparr>records := y\<rparr> =
       (fst (get_semantics env chain_id address st))\<lparr>records := y\<rparr>"
proof (intro conjI impI)
  assume "\<not> py_not address \<and> map_of (get_semantics_cache st) (chain_id, address) = None"
  then show "records (fst (get_semantics env chain_id address st)) =
        (case snd (get_semantics env chain_id address st) of
           Inl e \<Rightarrow> records st
         | Inr r \<Rightarrow> (case records st of None \<Rightarrow> None | Some rs \<Rightarrow> Some (rs @ [the address])))"
    by (auto simp: get_semantics_cases split: prod.splits sum.splits)
next
  assume "py_not address \<or> map_of (get_semantics_cache st) (chain_id, address) \<noteq> None"
  then show "records (fst (get_semantics env chain_id address st)) = records st"
    by (auto simp: get_semantics_cases split: option.splits)
next
  show "records (init d) = None" by (simp add: init_def)
  show "records (record_start st) = Some []" by (simp add: record_start_def)
  show "end_record st = (st\<lparr>records := None\<rparr>, records st)" by (simp add: end_record_def)
  show "snd (get_semantics env chain_id address (st\<lparr>records := x\<rparr>)) =
       snd (get_semantics env chain_id address st)"
    by (simp add: get_semantics_records_independent split: prod.splits)
  show "(fst (get_semantics env chain_id address (st\<lparr>records := x\<rparr>)))\<lparr>records := y\<rparr> =
       (fst (get_semantics env chain_id address st))\<lparr>records := y\<rparr>"
    by (simp add: get_semantics_records_independent split: prod.splits)
qed

lemma recorded_eoa_eq: "recorded_eoa = after_eoa\<lparr>records := Some [''0xe0'']\<rparr>"
  unfolding recorded_eoa_def record_start_def get_semantics_records_independent
  by (simp add: after_eoa_def [symmetric] split: prod.splits)
     (simp add: after_eoa_def example_simps)

text \<open>
  With recording on, the first resolution of the externally owned account appends its
  address to the empty log.
\<close>

theorem recording_on_resolution_witness:
  "records recorded_eoa = Some [''0xe0'']
   \<and> snd (get_semantics example_env ''1'' (Some ''0xe0'') (record_start (init empty_store))) =
       snd (get_semantics example_env ''1'' (Some ''0xe0'') (init empty_store))"
proof -
  have a: "\<not> py_not (Some ''0xe0'')
      \<and> map_of (get_semantics_cache (record_start (init empty_store))) (''1'', Some ''0xe0'') = None"
    by (simp add: py_not_def init_def record_start_def)
  have s: "snd (get_semantics example_env ''1'' (Some ''0xe0'') (record_start (init empty_store)))
      = Inr (Some 0)"
    by (simp add: record_start_def example_simps)
  from recording_on_resolution [of "Some ''0xe0''" "record_start (init empty_store)" "''1''"
      example_env empty_store None None] a s
  have 1: "records recorded_eoa = Some [''0xe0'']"
    by (simp add: recorded_eoa_def record_start_def)
  from recording_on_resolution [of "Some ''0xe0''" "init empty_store" "''1''"
      example_env empty_store "Some []" None]
  have 2: "snd (get_semantics example_env ''1'' (Some ''0xe0'') (record_start (init empty_store))) =
       snd (get_semantics example_env ''1'' (Some ''0xe0'') (init empty_store))"
    by (simp add: record_start_def)
  from 1 2 show ?thesis by blast
qed

text \<open>
  With addresses served from the cache included, as the specification words it, the
  property does not hold: with recording on, the
  second call for the same address returns the record and the log still has one entry.
\<close>

theorem cached_call_is_not_recorded:
  "records recorded_eoa = Some [''0xe0'']
   \<and> snd (get_semantics example_env ''1'' (Some ''0xe0'') recorded_eoa) = Inr (Some 0)
   \<and> records (fst (get_semantics example_env ''1'' (Some ''0xe0'') recorded_eoa)) = Some [''0xe0'']"
  by (simp add: recorded_eoa_eq after_eoa_eq get_semantics_cases)

section \<open>The zero-hash sentinel\<close>

text \<open>
  C2, as the code has it, for a non-empty address that is not in the cache of
  \<^verbatim>\<open>get_semantics\<close>. When the store has no record and the chain gives
  \<^verbatim>\<open>ZERO_HASH\<close> as code hash, the result is a new record that is not a contract, has no
  standard and no ERC20 descriptor, and whose contract semantics, as handed to the
  Amendment Layer, has the name \<open>EOA\<close> and empty maps; the calls made are the read of the
  store, the code hash, the name resolution, the two writes to the store and the
  amendment: neither the registry nor a heuristic is consulted. When the store has a
  record whose contract is \<^verbatim>\<open>ZERO_HASH\<close>, the contract semantics is the same one, the
  contract record of the store is not read and no remote tier is consulted; the contract
  flag, the standard and the ERC20 descriptor are those of the stored record.
\<close>

theorem zero_hash_resolution:
  assumes "\<not> py_not address"
    and "map_of (get_semantics_cache st) (chain_id, address) = None"
  shows "(db_get_address_semantics env (db (world st)) chain_id (the address) = None
          \<and> get_code_hash env (the address) chain_id = ZERO_HASH
        \<longrightarrow> snd (get_semantics env chain_id address st) = Inr (Some (length (heap st)))
          \<and> deref (heap (fst (get_semantics env chain_id address st))) (length (heap st)) =
              Some \<lparr>as_chain_id = chain_id, as_address = the address,
                    as_name = ens_name env chain_id (the address), as_is_contract = False,
                    as_contract =
                      amend_contract_semantics env (ContractSemantics_default ZERO_HASH ''EOA''),
                    as_standard = None, as_erc20 = None\<rparr>
          \<and> calls_between (world st) (world (fst (get_semantics env chain_id address st))) =
              [DbGetAddressSemantics chain_id (the address),
               GetCodeHash (the address) chain_id,
               EnsName chain_id (the address),
               DbInsertContract (ContractSemantics_default ZERO_HASH ''EOA'') True,
               DbInsertAddress
                 \<lparr>ra_chain_id = chain_id, ra_address = the address,
                  ra_name = Some (ens_name env chain_id (the address)), ra_is_contract = False,
                  ra_contract = ZERO_HASH, ra_standard = None, ra_erc20 = None\<rparr> True,
               AmendContractSemantics (ContractSemantics_default ZERO_HASH ''EOA'')])
       \<and> (\<forall>raw. db_get_address_semantics env (db (world st)) chain_id (the address) = Some raw
                \<and> ra_contract raw = ZERO_HASH
        \<longrightarrow> snd (get_semantics env chain_id address st) = Inr (Some (length (heap st)))
          \<and> deref (heap (fst (get_semantics env chain_id address st))) (length (heap st)) =
              Some \<lparr>as_chain_id = chain_id, as_address = the address,
                    as_name =
                      (if ra_name raw \<in> {None, address} \<and> \<not> ra_is_contract raw
                       then ens_name env chain_id (the address)
                       else case ra_name raw of None \<Rightarrow> the address | Some n \<Rightarrow> n),
                    as_is_contract = ra_is_contract raw,
                    as_contract =
                      amend_contract_semantics env (ContractSemantics_default ZERO_HASH ''EOA''),
                    as_standard = ra_standard raw, as_erc20 = ra_erc20 raw\<rparr>
          \<and> calls_between (world st) (world (fst (get_semantics env chain_id address st))) =
              DbGetAddressSemantics chain_id (the address)
              # (if ra_name raw \<in> {None, address} \<and> \<not> ra_is_contract raw
                 then [EnsName chain_id (the address)] else [])
              @ [AmendContractSemantics (ContractSemantics_default ZERO_HASH ''EOA'')])"
proof (intro conjI allI impI)
  assume h: "db_get_address_semantics env (db (world st)) chain_id (the address) = None
          \<and> get_code_hash env (the address) chain_id = ZERO_HASH"
  let ?s = "\<lparr>as_chain_id = chain_id, as_address = the address,
             as_name = ens_name env chain_id (the address), as_is_contract = False,
             as_contract = ContractSemantics_default ZERO_HASH ''EOA'',
             as_standard = None, as_erc20 = None\<rparr>"
  let ?calls = "[DbGetAddressSemantics chain_id (the address),
               GetCodeHash (the address) chain_id,
               EnsName chain_id (the address),
               DbInsertContract (ContractSemantics_default ZERO_HASH ''EOA'') True,
               DbInsertAddress
                 \<lparr>ra_chain_id = chain_id, ra_address = the address,
                  ra_name = Some (ens_name env chain_id (the address)), ra_is_contract = False,
                  ra_contract = ZERO_HASH, ra_standard = None, ra_erc20 = None\<rparr> True]"
  obtain d1 cid where ic: "db_insert_contract env (db (world st))
      (ContractSemantics_default ZERO_HASH ''EOA'') True = (d1, cid)"
    by (cases "db_insert_contract env (db (world st))
      (ContractSemantics_default ZERO_HASH ''EOA'') True")
  have rt: "\<exists>w. resolve_tiers env chain_id address (world st) = (w, Inr ?s)
      \<and> trace w = trace (world st) @ ?calls"
    using h assms(1) ic
    by (simp add: resolve_tiers_def read_stored_semantics_def resolve_remote_def
        update_semantics_def insert_contract_signatures_def address_dict_def log_def
        ContractSemantics_default_def Let_def)
  then obtain w where w: "resolve_tiers env chain_id address (world st) = (w, Inr ?s)"
    "trace w = trace (world st) @ ?calls" by blast
  from w assms show "snd (get_semantics env chain_id address st) = Inr (Some (length (heap st)))"
    by (simp add: get_semantics_cases)
  from w assms show "deref (heap (fst (get_semantics env chain_id address st))) (length (heap st)) =
              Some \<lparr>as_chain_id = chain_id, as_address = the address,
                    as_name = ens_name env chain_id (the address), as_is_contract = False,
                    as_contract =
                      amend_contract_semantics env (ContractSemantics_default ZERO_HASH ''EOA''),
                    as_standard = None, as_erc20 = None\<rparr>"
    by (simp add: get_semantics_cases deref_def)
  from w assms show "calls_between (world st) (world (fst (get_semantics env chain_id address st))) =
              [DbGetAddressSemantics chain_id (the address),
               GetCodeHash (the address) chain_id,
               EnsName chain_id (the address),
               DbInsertContract (ContractSemantics_default ZERO_HASH ''EOA'') True,
               DbInsertAddress
                 \<lparr>ra_chain_id = chain_id, ra_address = the address,
                  ra_name = Some (ens_name env chain_id (the address)), ra_is_contract = False,
                  ra_contract = ZERO_HASH, ra_standard = None, ra_erc20 = None\<rparr> True,
               AmendContractSemantics (ContractSemantics_default ZERO_HASH ''EOA'')]"
    by (simp add: get_semantics_cases calls_between_def log_def)
next
  fix raw
  assume h: "db_get_address_semantics env (db (world st)) chain_id (the address) = Some raw
                \<and> ra_contract raw = ZERO_HASH"
  let ?ens = "ra_name raw \<in> {None, address} \<and> \<not> ra_is_contract raw"
  let ?s = "\<lparr>as_chain_id = chain_id, as_address = the address,
             as_name = (if ?ens then ens_name env chain_id (the address)
                        else case ra_name raw of None \<Rightarrow> the address | Some n \<Rightarrow> n),
             as_is_contract = ra_is_contract raw,
             as_contract = ContractSemantics_default ZERO_HASH ''EOA'',
             as_standard = ra_standard raw, as_erc20 = ra_erc20 raw\<rparr>"
  from assms(1) obtain a where a: "address = Some a" "a \<noteq> []"
    by (cases address) (auto simp: py_not_def)
  have rt: "\<exists>w. resolve_tiers env chain_id address (world st) = (w, Inr ?s)
      \<and> trace w = trace (world st) @ DbGetAddressSemantics chain_id (the address)
              # (if ?ens then [EnsName chain_id (the address)] else [])"
    using h a
    by (cases "ra_name raw")
      (auto simp: resolve_tiers_def read_stored_semantics_def log_def py_not_def Let_def)
  then obtain w where w: "resolve_tiers env chain_id address (world st) = (w, Inr ?s)"
    "trace w = trace (world st) @ DbGetAddressSemantics chain_id (the address)
              # (if ?ens then [EnsName chain_id (the address)] else [])" by blast
  from w assms show "snd (get_semantics env chain_id address st) = Inr (Some (length (heap st)))"
    by (simp add: get_semantics_cases)
  from w assms show "deref (heap (fst (get_semantics env chain_id address st))) (length (heap st)) =
              Some \<lparr>as_chain_id = chain_id, as_address = the address,
                    as_name = (if ?ens then ens_name env chain_id (the address)
                               else case ra_name raw of None \<Rightarrow> the address | Some n \<Rightarrow> n),
                    as_is_contract = ra_is_contract raw,
                    as_contract =
                      amend_contract_semantics env (ContractSemantics_default ZERO_HASH ''EOA''),
                    as_standard = ra_standard raw, as_erc20 = ra_erc20 raw\<rparr>"
    by (simp add: get_semantics_cases deref_def)
  from w assms show "calls_between (world st) (world (fst (get_semantics env chain_id address st))) =
              DbGetAddressSemantics chain_id (the address)
              # (if ?ens then [EnsName chain_id (the address)] else [])
              @ [AmendContractSemantics (ContractSemantics_default ZERO_HASH ''EOA'')]"
    by (simp add: get_semantics_cases calls_between_def log_def)
qed

text \<open>
  The externally owned account of the examples, resolved from the chain, and the flagged
  record of the store.
\<close>

theorem zero_hash_resolution_witness:
  "deref (heap after_eoa) 0 =
     Some \<lparr>as_chain_id = ''1'', as_address = ''0xe0'', as_name = ''alice.eth'',
           as_is_contract = False, as_contract = ContractSemantics_default ZERO_HASH ''EOA'',
           as_standard = None, as_erc20 = None\<rparr>
   \<and> calls_between (world (init flagged_store))
       (world (fst (get_semantics example_env ''1'' (Some ''0xe1'') (init flagged_store)))) =
     [DbGetAddressSemantics ''1'' ''0xe1'',
      AmendContractSemantics (ContractSemantics_default ZERO_HASH ''EOA'')]"
proof -
  have a: "\<not> py_not (Some ''0xe0'')" and b: "\<not> py_not (Some ''0xe1'')"
    by (simp_all add: py_not_def)
  have m: "map_of (get_semantics_cache (init empty_store)) (''1'', Some ''0xe0'') = None"
    and n: "map_of (get_semantics_cache (init flagged_store)) (''1'', Some ''0xe1'') = None"
    by (simp_all add: init_def)
  have 1: "db_get_address_semantics example_env (db (world (init empty_store))) ''1''
        (the (Some ''0xe0'')) = None
      \<and> get_code_hash example_env (the (Some ''0xe0'')) ''1'' = ZERO_HASH"
    by (simp add: example_env_def init_def empty_store_def)
  have 2: "db_get_address_semantics example_env (db (world (init flagged_store))) ''1''
        (the (Some ''0xe1'')) = Some (snd (hd (addresses flagged_store)))
      \<and> ra_contract (snd (hd (addresses flagged_store))) = ZERO_HASH"
    by (simp add: example_env_def init_def flagged_store_def)
  from zero_hash_resolution [OF a m, of example_env] 1
  have 3: "deref (heap after_eoa) 0 =
     Some \<lparr>as_chain_id = ''1'', as_address = ''0xe0'', as_name = ''alice.eth'',
           as_is_contract = False, as_contract = ContractSemantics_default ZERO_HASH ''EOA'',
           as_standard = None, as_erc20 = None\<rparr>"
    by (simp add: after_eoa_def init_def example_env_def)
  from zero_hash_resolution [OF b n, of example_env] 2
  have 4: "calls_between (world (init flagged_store))
       (world (fst (get_semantics example_env ''1'' (Some ''0xe1'') (init flagged_store)))) =
     [DbGetAddressSemantics ''1'' ''0xe1'',
      AmendContractSemantics (ContractSemantics_default ZERO_HASH ''EOA'')]"
    by (simp add: flagged_store_def)
  from 3 4 show ?thesis by blast
qed

text \<open>
  With records read from the store included, as the specification words it, the
  property does not hold: the stored record of \<open>0xe1\<close> refers to
  the zero hash, and its resolution is flagged as a contract, with a standard and an ERC20
  descriptor, as the stored record is.
\<close>

theorem stored_zero_hash_keeps_stored_flags:
  "map_option ra_contract (db_get_address_semantics example_env flagged_store ''1'' ''0xe1'')
     = Some ZERO_HASH
   \<and> snd (get_semantics example_env ''1'' (Some ''0xe1'') (init flagged_store)) = Inr (Some 0)
   \<and> deref (heap (fst (get_semantics example_env ''1'' (Some ''0xe1'') (init flagged_store)))) 0 =
       Some \<lparr>as_chain_id = ''1'', as_address = ''0xe1'', as_name = ''Vault'',
             as_is_contract = True, as_contract = ContractSemantics_default ZERO_HASH ''EOA'',
             as_standard = Some ''ERC20'',
             as_erc20 = Some \<lparr>erc20_name = ''Vault'', erc20_symbol = ''VLT'',
                               erc20_decimals = 18\<rparr>\<rparr>"
  by (simp add: flagged_store_def deref_def example_simps Let_def)

section \<open>A non-empty address never resolves to nothing\<close>




lemma resolve_remote_fields:
  "as_chain_id (snd (resolve_remote env chain_id address w)) = chain_id
   \<and> as_address (snd (resolve_remote env chain_id address w)) = address
   \<and> as_is_contract (snd (resolve_remote env chain_id address w)) =
       (get_code_hash env address chain_id \<noteq> ZERO_HASH)
   \<and> cs_code_hash (as_contract (snd (resolve_remote env chain_id address w))) =
       get_code_hash env address chain_id"
proof (cases "get_code_hash env address chain_id = ZERO_HASH")
  case True
  then show ?thesis
    by (simp add: resolve_remote_def ContractSemantics_default_def)
next
  case nz: False
  obtain raw decoded where abi: "get_contract_abi env chain_id address = (raw, decoded)"
    by (cases "get_contract_abi env chain_id address")
  show ?thesis
  proof (cases "decoded \<and> raw \<noteq> None")
    case False
    with nz abi show ?thesis
      by (auto simp: resolve_remote_def Let_def ContractSemantics_default_def)
  next
    case True
    then obtain rs where raw: "raw = Some rs" and dec: decoded by auto
    obtain ev fs where de: "decode_events_and_functions env (rs_abi rs) = (ev, fs)"
      by (cases "decode_events_and_functions env (rs_abi rs)")
    let ?w3 = "log (DecodeEventsAndFunctions (rs_abi rs))
                 (log (GetContractAbi chain_id address) (log (GetCodeHash address chain_id) w))"
    obtain w4 std ss where ds:
      "decode_standard_semantics env (Some address) (rs_name rs) ev fs ?w3 = (w4, std, ss)"
      by (cases "decode_standard_semantics env (Some address) (rs_name rs) ev fs ?w3") auto
    from nz abi raw dec de ds show ?thesis
      by (simp add: resolve_remote_def)
  qed
qed










section \<open>Constructor lookup and the shared object\<close>

lemma map_of_dict_modify:
  "map_of (dict_modify k g d) k' = (if k' = k then map_option g (map_of d k) else map_of d k')"
  by (induction d) auto

lemma lru_store_take:
  "\<not> has_key c k \<Longrightarrow> length c \<le> maxsize \<Longrightarrow> lru_store k v c = take maxsize ((k, v) # c)"
  by (cases c rule: rev_cases) (auto simp: lru_store_def maxsize_def)

lemma take_append_take: "take n (xs @ take n ys) = take n (xs @ ys)"
  by (induction xs arbitrary: n) (auto simp: take_Cons split: nat.split)

lemma has_key_take: "has_key (take n c) k \<Longrightarrow> has_key c k"
  by (auto simp: has_key_def dest: in_set_takeD)

lemma fold_lru_store:
  "distinct ks \<Longrightarrow> \<forall>k\<in>set ks. \<not> has_key c k \<Longrightarrow> length c \<le> maxsize \<Longrightarrow>
     fold (\<lambda>k. lru_store k v) ks c = take maxsize (rev (map (\<lambda>k. (k, v)) ks) @ c)"
proof (induction ks arbitrary: c)
  case Nil
  then show ?case by simp
next
  case (Cons k ks)
  have s: "lru_store k v c = take maxsize ((k, v) # c)"
    using Cons.prems by (simp add: lru_store_take)
  have nk: "\<forall>k'\<in>set ks. \<not> has_key (take maxsize ((k, v) # c)) k'"
  proof
    fix k' assume k': "k' \<in> set ks"
    with Cons.prems have "k' \<noteq> k" "\<not> has_key c k'" by auto
    then have "\<not> has_key ((k, v) # c) k'" by (simp add: has_key_def)
    then show "\<not> has_key (take maxsize ((k, v) # c)) k'" using has_key_take by metis
  qed
  have "fold (\<lambda>k. lru_store k v) ks (take maxsize ((k, v) # c)) =
      take maxsize (rev (map (\<lambda>k. (k, v)) ks) @ take maxsize ((k, v) # c))"
    using Cons.prems nk by (intro Cons.IH) simp_all
  then show ?case
    by (simp add: s take_append_take)
qed

lemma map_of_None_has_key: "(map_of c k = None) = (\<not> has_key c k)"
  by (simp add: has_key_def map_of_eq_None_iff)

lemma empty_lookup_miss:
  assumes "\<not> has_key (get_constructor_abi_cache st) (chain_id, Some [])"
  shows "fst (get_constructor_abi env chain_id (Some []) st) =
     st\<lparr>get_constructor_abi_cache :=
          lru_store (chain_id, Some []) None (get_constructor_abi_cache st)\<rparr>"
  using assms
  by (simp add: get_constructor_abi_def lru_cached_def get_constructor_abi_body_def py_not_def
      map_of_None_has_key [symmetric])

lemma has_key_lru_store: "has_key (lru_store k v c) k' \<Longrightarrow> k' = k \<or> has_key c k'"
  using set_lru_store [of k v c] by (auto simp: has_key_def)

lemma empty_lookups_cache:
  "distinct cids \<Longrightarrow>
   \<forall>c\<in>set cids. \<not> has_key (get_constructor_abi_cache st) (c, Some []) \<Longrightarrow>
     empty_lookups env cids st =
       st\<lparr>get_constructor_abi_cache :=
            fold (\<lambda>k. lru_store k None) (map (\<lambda>c. (c, Some [])) cids)
              (get_constructor_abi_cache st)\<rparr>"
proof (induction cids arbitrary: st)
  case Nil
  then show ?case by (simp add: empty_lookups_def)
next
  case (Cons c cids)
  let ?st1 = "st\<lparr>get_constructor_abi_cache :=
          lru_store (c, Some []) None (get_constructor_abi_cache st)\<rparr>"
  have 1: "fst (get_constructor_abi env c (Some []) st) = ?st1"
    using Cons.prems by (simp add: empty_lookup_miss)
  have 2: "\<forall>c'\<in>set cids. \<not> has_key (get_constructor_abi_cache ?st1) (c', Some [])"
    using Cons.prems by (auto dest: has_key_lru_store)
  have "empty_lookups env cids ?st1 =
      ?st1\<lparr>get_constructor_abi_cache :=
            fold (\<lambda>k. lru_store k None) (map (\<lambda>c. (c, Some [])) cids)
              (get_constructor_abi_cache ?st1)\<rparr>"
    using Cons.prems 2 by (intro Cons.IH) simp_all
  then show ?case
    using 1 by (simp add: empty_lookups_def)
qed

lemma distinct_other_chains: "distinct other_chains"
proof -
  have "inj (\<lambda>n. replicate (Suc n) (CHR ''2''))"
    by (rule injI) (metis length_replicate nat.inject)
  then show ?thesis
    unfolding other_chains_def by (simp add: distinct_map inj_on_def)
qed

lemma length_other_chains: "length other_chains = maxsize"
  by (simp add: other_chains_def maxsize_def)

text \<open>A constructor lookup that misses its own cache while the object is still cached.\<close>

lemma get_constructor_abi_on_cached_object:
  assumes miss: "map_of (get_constructor_abi_cache st) (chain_id, address) = None"
    and a: "\<not> py_not address"
    and hit: "map_of (get_semantics_cache st) (chain_id, address) = Some (Some r)"
    and obj: "deref (heap st) r = Some s"
    and f: "map_of (cs_functions (as_contract s)) ''constructor'' = Some f"
  shows "returned_function (get_constructor_abi env chain_id address st) =
     Some (f\<lparr>fn_outputs := fn_outputs f @ [create_output]\<rparr>)"
proof -
  from obj have r: "r < length (heap st)" and s: "heap st ! r = s"
    by (auto simp: deref_def split: if_splits)
  show ?thesis
    using miss a hit obj f r
    by (simp add: get_constructor_abi_def lru_cached_def get_constructor_abi_body_def
        get_semantics_cases function_ref_of_def deref_function_def returned_function_def
        append_output_def deref_def map_of_dict_modify)
qed

text \<open>
  A constructor lookup that finds neither its key nor the object in a cache, on a record
  that the tiers give: the entry keyed \<open>constructor\<close> of the amended record comes back
  with one more output, the marker; without such an entry the lookup returns nothing.
\<close>

lemma get_constructor_abi_fresh:
  assumes miss: "map_of (get_constructor_abi_cache st) (chain_id, address) = None"
    and a: "\<not> py_not address"
    and miss2: "map_of (get_semantics_cache st) (chain_id, address) = None"
    and rt: "resolve_tiers env chain_id address (world st) = (w, Inr s)"
  shows "returned_function (get_constructor_abi env chain_id address st) =
     map_option (\<lambda>f. f\<lparr>fn_outputs := fn_outputs f @ [create_output]\<rparr>)
       (map_of (cs_functions (amend_contract_semantics env (as_contract s))) ''constructor'')"
  using assms
  by (cases "map_of (cs_functions (amend_contract_semantics env (as_contract s))) ''constructor''")
     (simp_all add: get_constructor_abi_def lru_cached_def get_constructor_abi_body_def
        get_semantics_cases function_ref_of_def deref_function_def returned_function_def
        append_output_def deref_def map_of_dict_modify)

lemma after_factory_caches:
  "get_semantics_cache after_factory = [((''1'', Some ''0xfa''), Some 0)]"
  "get_constructor_abi_cache after_factory = [((''1'', Some ''0xfa''), Some (0, ''constructor''))]"
  "deref (heap after_factory) 0 =
     Some \<lparr>as_chain_id = ''1'', as_address = ''0xfa'', as_name = ''Factory'',
           as_is_contract = True,
           as_contract = factory_contract
             \<lparr>cs_functions :=
                dict_modify ''constructor'' (\<lambda>f. f\<lparr>fn_outputs := fn_outputs f @ [create_output]\<rparr>)
                  factory_functions\<rparr>,
           as_standard = None, as_erc20 = None\<rparr>"
  unfolding after_factory_def
  by (simp_all add: get_constructor_abi_def lru_cached_def get_constructor_abi_body_def
      function_ref_of_def deref_function_def append_output_def deref_def
      factory_contract_def factory_functions_def startswith_def new_signature_def
      signature_args_def SignatureArg_def example_simps Let_def ZERO_HASH_def)

lemma after_lookups:
  "empty_lookups example_env other_chains after_factory =
     after_factory\<lparr>get_constructor_abi_cache :=
       rev (map (\<lambda>k. (k, None)) (map (\<lambda>c. (c, Some [])) other_chains))\<rparr>"
proof -
  have nk: "\<forall>c\<in>set other_chains. \<not> has_key (get_constructor_abi_cache after_factory) (c, Some [])"
    by (simp add: after_factory_caches has_key_def)
  have d: "distinct (map (\<lambda>c. (c, Some ([] :: string))) other_chains)"
    using distinct_other_chains by (simp add: distinct_map inj_on_def)
  have nk2: "\<forall>k\<in>set (map (\<lambda>c. (c, Some ([] :: string))) other_chains).
      \<not> has_key (get_constructor_abi_cache after_factory) k"
    by (auto simp: after_factory_caches has_key_def)
  have "fold (\<lambda>k. lru_store k None) (map (\<lambda>c. (c, Some [])) other_chains)
          (get_constructor_abi_cache after_factory) =
        take maxsize (rev (map (\<lambda>k. (k, None)) (map (\<lambda>c. (c, Some [])) other_chains))
          @ get_constructor_abi_cache after_factory)"
    by (rule fold_lru_store [OF d nk2]) (simp add: after_factory_caches maxsize_def)
  also have "\<dots> = rev (map (\<lambda>k. (k, None)) (map (\<lambda>c. (c, Some [])) other_chains))"
    by (simp add: length_other_chains)
  finally show ?thesis
    using empty_lookups_cache [OF distinct_other_chains nk, of example_env] by simp
qed

text \<open>
  C5 on the code. The stored constructor of the factory has no outputs. The first
  constructor lookup returns it with one output, the marker. After 128 constructor
  lookups with an empty address on other chain identifiers, the cache of
  \<^verbatim>\<open>get_constructor_abi\<close> has dropped the key of the factory, while the cache of
  \<^verbatim>\<open>get_semantics\<close> still holds the object, which carries the marker: the next
  constructor lookup for the factory appends to the same object and returns two markers.
\<close>

theorem constructor_marker_appended_twice:
  "map_option fn_outputs (map_of factory_functions ''constructor'') = Some []
   \<and> map_option fn_outputs
       (returned_function
          (get_constructor_abi example_env ''1'' (Some ''0xfa'') (init empty_store))) =
       Some [create_output]
   \<and> map_option fn_outputs
       (returned_function
          (get_constructor_abi example_env ''1'' (Some ''0xfa'')
             (empty_lookups example_env other_chains after_factory))) =
       Some [create_output, create_output]"
proof (intro conjI)
  show "map_option fn_outputs (map_of factory_functions ''constructor'') = Some []"
    by (simp add: factory_functions_def)
  have a: "\<not> py_not (Some ''0xfa'')" by (simp add: py_not_def)
  obtain w s where rt:
    "resolve_tiers example_env ''1'' (Some ''0xfa'') (world (init empty_store)) = (w, Inr s)"
    "cs_functions (as_contract s) = factory_functions"
    by (simp add: example_simps Let_def ZERO_HASH_def)
  from get_constructor_abi_fresh [OF _ a _ rt(1)] rt(2)
  show "map_option fn_outputs
       (returned_function
          (get_constructor_abi example_env ''1'' (Some ''0xfa'') (init empty_store))) =
       Some [create_output]"
    by (simp add: init_def example_env_def factory_functions_def)
  let ?st = "empty_lookups example_env other_chains after_factory"
  have miss: "map_of (get_constructor_abi_cache ?st) (''1'', Some ''0xfa'') = None"
    by (simp add: after_lookups map_of_eq_None_iff image_iff)
  have hit: "map_of (get_semantics_cache ?st) (''1'', Some ''0xfa'') = Some (Some 0)"
    by (simp add: after_lookups after_factory_caches)
  have obj: "deref (heap ?st) 0 =
     Some \<lparr>as_chain_id = ''1'', as_address = ''0xfa'', as_name = ''Factory'',
           as_is_contract = True,
           as_contract = factory_contract
             \<lparr>cs_functions :=
                dict_modify ''constructor'' (\<lambda>f. f\<lparr>fn_outputs := fn_outputs f @ [create_output]\<rparr>)
                  factory_functions\<rparr>,
           as_standard = None, as_erc20 = None\<rparr>"
    by (simp add: after_lookups after_factory_caches)
  from get_constructor_abi_on_cached_object [OF miss a hit obj, of _ example_env]
  show "map_option fn_outputs
       (returned_function
          (get_constructor_abi example_env ''1'' (Some ''0xfa'')
             (empty_lookups example_env other_chains after_factory))) =
       Some [create_output, create_output]"
    by (simp add: map_of_dict_modify factory_functions_def)
qed

end
